theory Spec2Isabelle
  imports Complex_Main "HOL-Library.Sublist"
begin

section \<open>JavaScript values\<close>

text \<open>
  The option bridge of \<^verbatim>\<open>src/cli/options.ts\<close> and the HTTP handler of
  \<^verbatim>\<open>src/cli-server.ts\<close> work on loosely typed input. A raw value is a value of
  type \<^verbatim>\<open>unknown\<close> as a parsed query string or a parsed JSON body can hold it.

  Numbers: a JavaScript number is NaN, an infinity or a finite binary64 value. A finite
  value is modelled by the rational it denotes, and \<open>-0\<close> is \<open>0\<close>. A number that
  arrives in the input is taken as it is. A number that the program reads from digits is
  rounded to binary64 (53 significant bits, ties to even, an infinity from \<open>2^1024\<close>
  on), as \<open>toBinary64\<close> below does.

  Strings: sequences of 8-bit characters (the Latin-1 range of UTF-16 code units).
\<close>

datatype jsnum = NaN | PosInf | NegInf | Fin rat

datatype jsval =
    JUndefined
  | JNull
  | JBool bool
  | JNum jsnum
  | JStr string
  | JArr "jsval list"
  | JObj "(string \<times> jsval) list"

text \<open>What a \<^verbatim>\<open>throw\<close> or a rejected promise carries: an \<^verbatim>\<open>Error\<close> object with its
  message, or any other value.\<close>

datatype thrown = ErrorObj string | OtherValue

definition typeError :: thrown where
  "typeError = ErrorObj ''Cannot convert object to primitive value''"

subsection \<open>Library functions of the language\<close>

text \<open>
  The runtime supplies two functions that the model takes as parameters:
  \<^verbatim>\<open>Number.prototype.toString\<close> on finite values that are not integers of
  magnitude at most \<open>2^53\<close> (shortest round-trip notation, exponents), and
  \<^verbatim>\<open>path.resolve\<close> of two segments.
\<close>

record runtime =
  numFmt :: "rat \<Rightarrow> string"
  pathResolve :: "string \<Rightarrow> string \<Rightarrow> string"

definition digitChar :: "nat \<Rightarrow> char" where
  "digitChar d = ''0123456789'' ! (d mod 10)"

fun showNat :: "nat \<Rightarrow> string" where
  "showNat n = (if n < 10 then [digitChar n] else showNat (n div 10) @ [digitChar (n mod 10)])"

declare showNat.simps [simp del]

definition showInt :: "int \<Rightarrow> string" where
  "showInt i = (if i < 0 then CHR ''-'' # showNat (nat (- i)) else showNat (nat i))"

text \<open>\<^verbatim>\<open>Number.prototype.toString()\<close>, radix 10. An integer of magnitude at most
  \<open>2^53\<close> prints as its decimal numeral. Every other finite value prints the shortest
  digits that read back as the same binary64, with zeros or an exponent after them:
  that is \<open>numFmt\<close> of the runtime.\<close>

definition numberToString :: "runtime \<Rightarrow> jsnum \<Rightarrow> string" where
  "numberToString rt n =
     (case n of
        NaN \<Rightarrow> ''NaN''
      | PosInf \<Rightarrow> ''Infinity''
      | NegInf \<Rightarrow> ''-Infinity''
      | Fin q \<Rightarrow>
          (if q = of_int \<lfloor>q\<rfloor> \<and> \<bar>q\<bar> \<le> 2 ^ 53 then showInt \<lfloor>q\<rfloor> else numFmt rt q))"

text \<open>\<^verbatim>\<open>Boolean.prototype.toString()\<close>.\<close>

definition boolToString :: "bool \<Rightarrow> string" where
  "boolToString b = (if b then ''true'' else ''false'')"

text \<open>\<^verbatim>\<open>Array.prototype.join(",")\<close> on an array of strings.\<close>

fun joinComma :: "string list \<Rightarrow> string" where
  "joinComma [] = []"
| "joinComma [s] = s"
| "joinComma (s # t # ss) = s @ CHR '','' # joinComma (t # ss)"

text \<open>
  \<^verbatim>\<open>String(value)\<close>. An array is joined with commas, where an element that is
  \<^verbatim>\<open>null\<close> or \<^verbatim>\<open>undefined\<close> gives the empty string. A parsed object has no callable
  property of its own, so it prints as \<^verbatim>\<open>[object Object]\<close> through
  \<^verbatim>\<open>Object.prototype.toString\<close>, unless an own key \<^verbatim>\<open>toString\<close> shadows that method:
  then the conversion to a primitive throws a \<^verbatim>\<open>TypeError\<close>.
\<close>

fun toStringJS :: "runtime \<Rightarrow> jsval \<Rightarrow> thrown + string"
  and arrayElems :: "runtime \<Rightarrow> jsval list \<Rightarrow> thrown + string list"
where
  "toStringJS rt JUndefined = Inr ''undefined''"
| "toStringJS rt JNull = Inr ''null''"
| "toStringJS rt (JBool b) = Inr (boolToString b)"
| "toStringJS rt (JNum n) = Inr (numberToString rt n)"
| "toStringJS rt (JStr s) = Inr s"
| "toStringJS rt (JArr xs) =
     (case arrayElems rt xs of Inl e \<Rightarrow> Inl e | Inr ss \<Rightarrow> Inr (joinComma ss))"
| "toStringJS rt (JObj kvs) =
     (if ''toString'' \<in> set (map fst kvs) then Inl typeError else Inr ''[object Object]'')"
| "arrayElems rt [] = Inr []"
| "arrayElems rt (x # xs) =
     (case (if x = JUndefined \<or> x = JNull then Inr [] else toStringJS rt x) of
        Inl e \<Rightarrow> Inl e
      | Inr s \<Rightarrow> (case arrayElems rt xs of Inl e \<Rightarrow> Inl e | Inr ss \<Rightarrow> Inr (s # ss)))"

text \<open>\<^verbatim>\<open>value.map(String)\<close>: the callback runs on the elements in order, and the
  first one that throws ends the call.\<close>

fun mapString :: "runtime \<Rightarrow> jsval list \<Rightarrow> thrown + string list" where
  "mapString rt [] = Inr []"
| "mapString rt (x # xs) =
     (case toStringJS rt x of
        Inl e \<Rightarrow> Inl e
      | Inr s \<Rightarrow> (case mapString rt xs of Inl e \<Rightarrow> Inl e | Inr ss \<Rightarrow> Inr (s # ss)))"

text \<open>White space and line terminators, as \<^verbatim>\<open>trim\<close> and \<^verbatim>\<open>parseInt\<close> skip them:
  TAB, LF, VT, FF, CR, SP and NBSP.\<close>

definition isWhiteSpace :: "char \<Rightarrow> bool" where
  "isWhiteSpace c = ((of_char c :: nat) \<in> {9, 10, 11, 12, 13, 32, 160})"

definition trim :: "string \<Rightarrow> string" where
  "trim s = rev (dropWhile isWhiteSpace (rev (dropWhile isWhiteSpace s)))"

definition toLowerChar :: "char \<Rightarrow> char" where
  "toLowerChar c =
     (let n = (of_char c :: nat)
      in if (65 \<le> n \<and> n \<le> 90) \<or> (192 \<le> n \<and> n \<le> 222 \<and> n \<noteq> 215)
         then char_of (n + 32) else c)"

definition toLowerCase :: "string \<Rightarrow> string" where
  "toLowerCase s = map toLowerChar s"

definition isDigit :: "char \<Rightarrow> bool" where
  "isDigit c = (c \<in> set ''0123456789'')"

definition digitVal :: "char \<Rightarrow> nat" where
  "digitVal c = (of_char c :: nat) - 48"

text \<open>The value of a string of decimal digits, most significant first.\<close>

definition digitsVal :: "string \<Rightarrow> nat" where
  "digitsVal ds = foldl (\<lambda>acc c. 10 * acc + digitVal c) 0 ds"

text \<open>
  The binary64 number of an integer. \<open>bitLength\<close> counts the binary digits of a natural
  number; \<open>roundNat\<close> keeps the 53 leading ones and rounds the rest to nearest, ties to
  even; a magnitude that rounds to \<open>2^1024\<close> or more is an infinity.
\<close>

fun bitLength :: "nat \<Rightarrow> nat" where
  "bitLength n = (if n = 0 then 0 else Suc (bitLength (n div 2)))"

declare bitLength.simps [simp del]

definition roundNat :: "nat \<Rightarrow> nat" where
  "roundNat m =
     (let e = (if bitLength m \<le> 53 then 0 else bitLength m - 53);
          q = m div 2 ^ e;
          r = m mod 2 ^ e
      in (if 2 ^ e < 2 * r \<or> (2 * r = 2 ^ e \<and> odd q) then q + 1 else q) * 2 ^ e)"

definition toBinary64 :: "int \<Rightarrow> jsnum" where
  "toBinary64 i =
     (let v = roundNat (nat \<bar>i\<bar>)
      in if 2 ^ 1024 \<le> v then (if i < 0 then NegInf else PosInf)
         else Fin (of_int (if i < 0 then - int v else int v)))"

text \<open>
  \<^verbatim>\<open>Number.parseInt(s, 10)\<close>: skip leading white space, read an optional sign, take
  the longest run of decimal digits; no digit gives NaN, and the digits give the binary64
  number of their value.
\<close>

definition parseInt :: "string \<Rightarrow> jsnum" where
  "parseInt s =
     (let s1 = dropWhile isWhiteSpace s;
          neg = (s1 \<noteq> [] \<and> hd s1 = CHR ''-'');
          s2 = (if s1 \<noteq> [] \<and> (hd s1 = CHR ''+'' \<or> hd s1 = CHR ''-'') then tl s1 else s1);
          z = takeWhile isDigit s2
      in if z = [] then NaN
         else toBinary64 (if neg then - int (digitsVal z) else int (digitsVal z)))"

section \<open>Option coercion (\<^verbatim>\<open>src/cli/options.ts\<close>)\<close>

record CliOptions =
  fileIni :: "string option"
  credentialIssuerUri :: "string option"
  presentationAuthorizeUri :: "string option"
  credentialTypes :: "string option"
  timeout :: "jsnum option"
  maxRetries :: "jsnum option"
  logLevel :: "string option"
  logFile :: "string option"
  port :: "jsnum option"
  saveCredential :: "bool option"

datatype optionKey =
    FileIni | CredentialIssuerUri | PresentationAuthorizeUri | CredentialTypes
  | Timeout | MaxRetries | LogLevel | LogFile | Port | SaveCredential

fun optionAliases :: "optionKey \<Rightarrow> string list" where
  "optionAliases FileIni = [''fileIni'', ''file-ini'']"
| "optionAliases CredentialIssuerUri = [''credentialIssuerUri'', ''credential-issuer-uri'']"
| "optionAliases PresentationAuthorizeUri =
     [''presentationAuthorizeUri'', ''presentation-authorize-uri'']"
| "optionAliases CredentialTypes = [''credentialTypes'', ''credential-types'']"
| "optionAliases Timeout = [''timeout'']"
| "optionAliases MaxRetries = [''maxRetries'', ''max-retries'']"
| "optionAliases LogLevel = [''logLevel'', ''log-level'']"
| "optionAliases LogFile = [''logFile'', ''log-file'']"
| "optionAliases Port = [''port'']"
| "optionAliases SaveCredential = [''saveCredential'', ''save-credential'']"

definition truthyValues :: "string set" where
  "truthyValues = {''true'', ''1'', ''yes''}"

definition falsyValues :: "string set" where
  "falsyValues = {''false'', ''0'', ''no''}"

text \<open>The functions that push onto \<^verbatim>\<open>errors\<close> take the list and return it updated.\<close>

definition coerceBoolean :: "jsval \<Rightarrow> string \<Rightarrow> string list \<Rightarrow> bool option \<times> string list" where
  "coerceBoolean v optionName errors =
     (if v = JUndefined \<or> v = JNull then (None, errors)
      else case v of
        JBool b \<Rightarrow> (Some b, errors)
      | JStr s \<Rightarrow>
          (let normalized = toLowerCase (trim s)
           in if normalized \<in> truthyValues then (Some True, errors)
              else if normalized \<in> falsyValues then (Some False, errors)
              else (None, errors @ [''Invalid boolean value for '' @ optionName @ ''.'']))
      | _ \<Rightarrow> (None, errors @ [''Invalid boolean value for '' @ optionName @ ''.'']))"

definition coerceNumber :: "jsval \<Rightarrow> string \<Rightarrow> string list \<Rightarrow> jsnum option \<times> string list" where
  "coerceNumber v optionName errors =
     (if v = JUndefined \<or> v = JNull \<or> v = JStr '''' then (None, errors)
      else case v of
        JNum n \<Rightarrow>
          (if n \<noteq> NaN then (Some n, errors)
           else (None, errors @ [''Invalid numeric value for '' @ optionName @ ''.'']))
      | JStr s \<Rightarrow>
          (let parsed = parseInt s
           in if parsed \<noteq> NaN then (Some parsed, errors)
              else (None, errors @ [''Invalid numeric value for '' @ optionName @ ''.'']))
      | _ \<Rightarrow> (None, errors @ [''Invalid numeric value for '' @ optionName @ ''.'']))"

definition coerceString :: "runtime \<Rightarrow> jsval \<Rightarrow> thrown + string option" where
  "coerceString rt v =
     (if v = JUndefined \<or> v = JNull then Inr None
      else case v of
        JArr xs \<Rightarrow> (case mapString rt xs of Inl e \<Rightarrow> Inl e | Inr ss \<Rightarrow> Inr (Some (joinComma ss)))
      | _ \<Rightarrow> (case toStringJS rt v of Inl e \<Rightarrow> Inl e | Inr s \<Rightarrow> Inr (Some s)))"

text \<open>A raw input is an object: a finite map from keys to values. \<^verbatim>\<open>alias in input\<close>
  asks for the key, whatever its value.\<close>

type_synonym rawInput = "string \<rightharpoonup> jsval"

fun getRawValue :: "rawInput \<Rightarrow> string list \<Rightarrow> jsval" where
  "getRawValue input [] = JUndefined"
| "getRawValue input (alias # aliases) =
     (case input alias of Some v \<Rightarrow> v | None \<Rightarrow> getRawValue input aliases)"

text \<open>
  \<^verbatim>\<open>normalizeCliOptions\<close>: the ten fields are evaluated in the order of the object
  literal. A string coercion that throws ends the call; the list \<^verbatim>\<open>errors\<close> is local
  and lost with it. \<open>andThen\<close> is that sequencing.
\<close>

definition andThen :: "thrown + 'a \<Rightarrow> ('a \<Rightarrow> thrown + 'b) \<Rightarrow> thrown + 'b" where
  "andThen r f = (case r of Inl e \<Rightarrow> Inl e | Inr x \<Rightarrow> f x)"

definition normalizeCliOptions :: "runtime \<Rightarrow> rawInput \<Rightarrow> thrown + (CliOptions \<times> string list)" where
  "normalizeCliOptions rt input =
     (let errors = [] in
      andThen (coerceString rt (getRawValue input (optionAliases FileIni))) (\<lambda>o1.
      andThen (coerceString rt (getRawValue input (optionAliases CredentialIssuerUri))) (\<lambda>o2.
      andThen (coerceString rt (getRawValue input (optionAliases PresentationAuthorizeUri))) (\<lambda>o3.
      andThen (coerceString rt (getRawValue input (optionAliases CredentialTypes))) (\<lambda>o4.
      let (o5, errors) = coerceNumber (getRawValue input (optionAliases Timeout)) ''timeout'' errors;
          (o6, errors) = coerceNumber (getRawValue input (optionAliases MaxRetries)) ''max-retries'' errors
      in
      andThen (coerceString rt (getRawValue input (optionAliases LogLevel))) (\<lambda>o7.
      andThen (coerceString rt (getRawValue input (optionAliases LogFile))) (\<lambda>o8.
      let (o9, errors) = coerceNumber (getRawValue input (optionAliases Port)) ''port'' errors;
          (o10, errors) =
             coerceBoolean (getRawValue input (optionAliases SaveCredential)) ''save-credential'' errors
      in Inr (\<lparr> fileIni = o1, credentialIssuerUri = o2, presentationAuthorizeUri = o3,
                credentialTypes = o4, timeout = o5, maxRetries = o6, logLevel = o7,
                logFile = o8, port = o9, saveCredential = o10 \<rparr>, errors))))))))"

section \<open>Environment projection (\<^verbatim>\<open>setEnvFromOptions\<close>)\<close>

text \<open>
  An environment object maps variable names to strings. Objects live in a store and are
  named by their address (the index in the store), so that copying an object and writing
  to an object are different things. \<^verbatim>\<open>process.env\<close> is one object of the store;
  \<^verbatim>\<open>process.cwd()\<close> reads the working directory of the process, which no step
  of this program changes. An address outside the store names no object: reading it
  finds no property and writing to it changes nothing.
\<close>

type_synonym env = "string \<rightharpoonup> string"

record world =
  heap :: "env list"
  process_env :: nat
  cwd :: string

definition deref :: "world \<Rightarrow> nat \<Rightarrow> env" where
  "deref w a = (if a < length (heap w) then heap w ! a else Map.empty)"

text \<open>\<^verbatim>\<open>{ ...obj }\<close>: a new object with the properties of \<open>obj\<close>.\<close>

definition spread :: "nat \<Rightarrow> world \<Rightarrow> nat \<times> world" where
  "spread a w = (length (heap w), w\<lparr>heap := heap w @ [deref w a]\<rparr>)"

text \<open>\<^verbatim>\<open>obj.KEY = value\<close>.\<close>

definition assign :: "nat \<Rightarrow> string \<Rightarrow> string \<Rightarrow> world \<Rightarrow> world" where
  "assign a k v w = w\<lparr>heap := (heap w)[a := (deref w a)(k \<mapsto> v)]\<rparr>"

text \<open>The condition \<^verbatim>\<open>if (options.field)\<close> on an optional string: \<^verbatim>\<open>undefined\<close> and
  the empty string are falsy.\<close>

definition truthy :: "string option \<Rightarrow> bool" where
  "truthy s = (case s of None \<Rightarrow> False | Some t \<Rightarrow> t \<noteq> [])"

text \<open>A statement \<^verbatim>\<open>if (c) { ... }\<close> with no \<^verbatim>\<open>else\<close>, as a step on the store.\<close>

definition ifThen :: "bool \<Rightarrow> (world \<Rightarrow> world) \<Rightarrow> world \<Rightarrow> world" where
  "ifThen c f w = (if c then f w else w)"

definition setEnvFromOptions :: "runtime \<Rightarrow> CliOptions \<Rightarrow> world \<Rightarrow> nat \<times> world" where
  "setEnvFromOptions rt options w0 =
     (let (env, w) = spread (process_env w0) w0;
          w = ifThen (truthy (fileIni options))
                (assign env ''CONFIG_FILE_INI'' (pathResolve rt (cwd w0) (the (fileIni options)))) w;
          w = ifThen (truthy (credentialIssuerUri options))
                (assign env ''CONFIG_CREDENTIAL_ISSUER_URI'' (the (credentialIssuerUri options))) w;
          w = ifThen (truthy (presentationAuthorizeUri options))
                (assign env ''CONFIG_PRESENTATION_AUTHORIZE_URI''
                   (the (presentationAuthorizeUri options))) w;
          w = ifThen (truthy (credentialTypes options))
                (assign env ''CONFIG_CREDENTIAL_TYPES'' (the (credentialTypes options))) w;
          w = ifThen (timeout options \<noteq> None)
                (assign env ''CONFIG_TIMEOUT'' (numberToString rt (the (timeout options)))) w;
          w = ifThen (maxRetries options \<noteq> None)
                (assign env ''CONFIG_MAX_RETRIES'' (numberToString rt (the (maxRetries options)))) w;
          w = ifThen (truthy (logLevel options))
                (assign env ''CONFIG_LOG_LEVEL'' (the (logLevel options))) w;
          w = ifThen (truthy (logFile options))
                (assign env ''CONFIG_LOG_FILE'' (the (logFile options))) w;
          w = ifThen (port options \<noteq> None)
                (assign env ''CONFIG_PORT'' (numberToString rt (the (port options)))) w;
          w = ifThen (saveCredential options \<noteq> None)
                (assign env ''CONFIG_SAVE_CREDENTIAL''
                   (boolToString (the (saveCredential options)))) w
      in (env, w))"

text \<open>The key that \<^verbatim>\<open>setEnvFromOptions\<close> assigns for each field, and the condition of
  the \<^verbatim>\<open>if\<close> that guards the assignment.\<close>

fun configKey :: "optionKey \<Rightarrow> string" where
  "configKey FileIni = ''CONFIG_FILE_INI''"
| "configKey CredentialIssuerUri = ''CONFIG_CREDENTIAL_ISSUER_URI''"
| "configKey PresentationAuthorizeUri = ''CONFIG_PRESENTATION_AUTHORIZE_URI''"
| "configKey CredentialTypes = ''CONFIG_CREDENTIAL_TYPES''"
| "configKey Timeout = ''CONFIG_TIMEOUT''"
| "configKey MaxRetries = ''CONFIG_MAX_RETRIES''"
| "configKey LogLevel = ''CONFIG_LOG_LEVEL''"
| "configKey LogFile = ''CONFIG_LOG_FILE''"
| "configKey Port = ''CONFIG_PORT''"
| "configKey SaveCredential = ''CONFIG_SAVE_CREDENTIAL''"

fun writes :: "CliOptions \<Rightarrow> optionKey \<Rightarrow> bool" where
  "writes options FileIni = truthy (fileIni options)"
| "writes options CredentialIssuerUri = truthy (credentialIssuerUri options)"
| "writes options PresentationAuthorizeUri = truthy (presentationAuthorizeUri options)"
| "writes options CredentialTypes = truthy (credentialTypes options)"
| "writes options Timeout = (timeout options \<noteq> None)"
| "writes options MaxRetries = (maxRetries options \<noteq> None)"
| "writes options LogLevel = truthy (logLevel options)"
| "writes options LogFile = truthy (logFile options)"
| "writes options Port = (port options \<noteq> None)"
| "writes options SaveCredential = (saveCredential options \<noteq> None)"

text \<open>The keys that \<^verbatim>\<open>setEnvFromOptions\<close> can write.\<close>

definition configKeys :: "string list" where
  "configKeys =
     [''CONFIG_FILE_INI'', ''CONFIG_CREDENTIAL_ISSUER_URI'', ''CONFIG_PRESENTATION_AUTHORIZE_URI'',
      ''CONFIG_CREDENTIAL_TYPES'', ''CONFIG_TIMEOUT'', ''CONFIG_MAX_RETRIES'', ''CONFIG_LOG_LEVEL'',
      ''CONFIG_LOG_FILE'', ''CONFIG_PORT'', ''CONFIG_SAVE_CREDENTIAL'']"

section \<open>The HTTP server (\<^verbatim>\<open>src/cli-server.ts\<close>)\<close>

record CommandResult =
  exitCode :: "int option"
  stdout :: string
  stderr :: string

text \<open>
  A child process is what it emits: chunks on its two pipes, an \<^verbatim>\<open>error\<close> event, a
  \<^verbatim>\<open>close\<close> event with the exit code (\<^verbatim>\<open>null\<close> after a signal). \<^verbatim>\<open>spawn\<close> is a
  parameter of the model: it returns the events of the child, or throws.
\<close>

datatype child_event =
    StdoutData string
  | StderrData string
  | ErrorEvent thrown
  | CloseEvent "int option"

datatype 'a promise = Pending | Fulfilled 'a | Rejected thrown

type_synonym spawner = "string \<Rightarrow> string list \<Rightarrow> env \<Rightarrow> thrown + child_event list"

text \<open>The listeners of \<^verbatim>\<open>runCommand\<close>, run on the events in order. A promise settles
  once: the first \<^verbatim>\<open>error\<close> or \<^verbatim>\<open>close\<close> decides. A child that emits neither leaves
  the promise pending, and the handler that awaits it never answers.\<close>

fun runEvents :: "child_event list \<Rightarrow> string \<Rightarrow> string \<Rightarrow> CommandResult promise" where
  "runEvents [] out err = Pending"
| "runEvents (StdoutData chunk # es) out err = runEvents es (out @ chunk) err"
| "runEvents (StderrData chunk # es) out err = runEvents es out (err @ chunk)"
| "runEvents (ErrorEvent e # es) out err = Rejected e"
| "runEvents (CloseEvent code # es) out err =
     Fulfilled \<lparr> exitCode = code, stdout = out, stderr = err \<rparr>"

definition runCommand :: "spawner \<Rightarrow> string \<Rightarrow> string list \<Rightarrow> env \<Rightarrow> CommandResult promise" where
  "runCommand spawn command args env =
     (case spawn command args env of
        Inl e \<Rightarrow> Rejected e
      | Inr events \<Rightarrow> runEvents events [] [])"

text \<open>A request, as far as the handler reads it: the parsed query and the parsed body
  (\<open>None\<close> when there is none).\<close>

record request =
  query :: rawInput
  body :: "rawInput option"

definition normalizeRequestParams :: "request \<Rightarrow> rawInput" where
  "normalizeRequestParams req = query req ++ (case body req of None \<Rightarrow> Map.empty | Some b \<Rightarrow> b)"

datatype json_body =
    ErrorsBody "string list"
  | ResultBody string "int option" string string
  | FailureBody string string
  | HealthBody
  | CommandsBody

datatype outcome =
    Response nat json_body
  | HandlerRejected thrown
  | NoResponse

text \<open>What a handler leaves behind: its outcome, the calls of \<^verbatim>\<open>spawn\<close> it made, and
  the store.\<close>

record handled =
  result :: outcome
  spawned :: "(string \<times> string list \<times> env) list"
  after :: world

definition createTestHandler :: "runtime \<Rightarrow> spawner \<Rightarrow> string \<Rightarrow> request \<Rightarrow> world \<Rightarrow> handled" where
  "createTestHandler rt spawn scriptName req w =
     (let rawParams = normalizeRequestParams req in
      case normalizeCliOptions rt rawParams of
        Inl e \<Rightarrow> \<lparr> result = HandlerRejected e, spawned = [], after = w \<rparr>
      | Inr (options, errors) \<Rightarrow>
          if length errors > 0
          then \<lparr> result = Response 400 (ErrorsBody errors), spawned = [], after = w \<rparr>
          else
            (let (env, w') = setEnvFromOptions rt options w;
                 call = (''pnpm'', [scriptName], deref w' env)
             in case runCommand spawn ''pnpm'' [scriptName] (deref w' env) of
                  Pending \<Rightarrow> \<lparr> result = NoResponse, spawned = [call], after = w' \<rparr>
                | Fulfilled r \<Rightarrow>
                    (if exitCode r \<noteq> Some 0
                     then \<lparr> result = Response 500
                                 (ResultBody scriptName (exitCode r) (stdout r) (stderr r)),
                            spawned = [call], after = w' \<rparr>
                     else \<lparr> result = Response 200
                                 (ResultBody scriptName (exitCode r) (stdout r) (stderr r)),
                            spawned = [call], after = w' \<rparr>)
                | Rejected error \<Rightarrow>
                    \<lparr> result = Response 500
                         (FailureBody ''command_execution_failed''
                            (case error of ErrorObj m \<Rightarrow> m | OtherValue \<Rightarrow> ''Unknown error'')),
                      spawned = [call], after = w' \<rparr>))"

text \<open>The routes that \<^verbatim>\<open>createCliServer\<close> registers.\<close>

datatype http_method = GET | POST

datatype endpoint = Health | Commands | TestHandler string

definition createCliServer :: "(http_method \<times> string \<times> endpoint) list" where
  "createCliServer =
     [(GET, ''/health'', Health),
      (GET, ''/commands'', Commands),
      (GET, ''/test/issuance'', TestHandler ''test:issuance''),
      (POST, ''/test/issuance'', TestHandler ''test:issuance''),
      (GET, ''/test/presentation'', TestHandler ''test:presentation''),
      (POST, ''/test/presentation'', TestHandler ''test:presentation'')]"

definition serve :: "runtime \<Rightarrow> spawner \<Rightarrow> endpoint \<Rightarrow> request \<Rightarrow> world \<Rightarrow> handled" where
  "serve rt spawn ep req w =
     (case ep of
        Health \<Rightarrow> \<lparr> result = Response 200 HealthBody, spawned = [], after = w \<rparr>
      | Commands \<Rightarrow> \<lparr> result = Response 200 CommandsBody, spawned = [], after = w \<rparr>
      | TestHandler scriptName \<Rightarrow> createTestHandler rt spawn scriptName req w)"

section \<open>Concrete inputs\<close>

text \<open>A runtime, a store and requests on which the functions above are evaluated in the
  examples that follow. The example \<^verbatim>\<open>path.resolve\<close> joins without normalising, and
  the example \<open>numFmt\<close> is a placeholder: the examples print integers only.\<close>

definition exampleRuntime :: runtime where
  "exampleRuntime =
     \<lparr> numFmt = (\<lambda>q. ''3.5''),
       pathResolve = (\<lambda>dir p. if p \<noteq> [] \<and> hd p = CHR ''/'' then p else dir @ ''/'' @ p) \<rparr>"

definition exampleWorld :: world where
  "exampleWorld =
     \<lparr> heap = [Map.empty(''PATH'' \<mapsto> ''/usr/bin'', ''CONFIG_PORT'' \<mapsto> ''9000'')],
       process_env = 0,
       cwd = ''/work'' \<rparr>"

definition emptyLogLevel :: CliOptions where
  "emptyLogLevel =
     \<lparr> fileIni = None, credentialIssuerUri = None, presentationAuthorizeUri = None,
       credentialTypes = None, timeout = None, maxRetries = None, logLevel = Some [],
       logFile = None, port = None, saveCredential = None \<rparr>"

definition someOptions :: CliOptions where
  "someOptions =
     \<lparr> fileIni = Some ''conf.ini'', credentialIssuerUri = Some ''https://issuer.example'',
       presentationAuthorizeUri = None, credentialTypes = Some [], timeout = Some (Fin 30),
       maxRetries = Some (Fin 0), logLevel = Some ''DEBUG'', logFile = None, port = None,
       saveCredential = Some False \<rparr>"

definition noOptions :: CliOptions where
  "noOptions =
     \<lparr> fileIni = None, credentialIssuerUri = None, presentationAuthorizeUri = None,
       credentialTypes = None, timeout = None, maxRetries = None, logLevel = None,
       logFile = None, port = None, saveCredential = None \<rparr>"

text \<open>The chunks that a list of events writes to each pipe, concatenated in order.\<close>

fun isData :: "child_event \<Rightarrow> bool" where
  "isData (StdoutData c) = True"
| "isData (StderrData c) = True"
| "isData (ErrorEvent e) = False"
| "isData (CloseEvent code) = False"

fun stdoutChunks :: "child_event list \<Rightarrow> string" where
  "stdoutChunks [] = []"
| "stdoutChunks (StdoutData c # es) = c @ stdoutChunks es"
| "stdoutChunks (e # es) = stdoutChunks es"

fun stderrChunks :: "child_event list \<Rightarrow> string" where
  "stderrChunks [] = []"
| "stderrChunks (StderrData c # es) = c @ stderrChunks es"
| "stderrChunks (e # es) = stderrChunks es"

text \<open>Test doubles for \<^verbatim>\<open>spawn\<close>: a child that emits a fixed list of events, and a
  \<^verbatim>\<open>spawn\<close> that throws.\<close>

definition scriptedSpawn :: "child_event list \<Rightarrow> spawner" where
  "scriptedSpawn events = (\<lambda>command args env. Inr events)"

definition throwingSpawn :: "thrown \<Rightarrow> spawner" where
  "throwingSpawn e = (\<lambda>command args env. Inl e)"

definition badTimeoutRequest :: request where
  "badTimeoutRequest = \<lparr> query = Map.empty, body = Some [''timeout'' \<mapsto> JStr ''notanumber''] \<rparr>"

definition goodRequest :: request where
  "goodRequest = \<lparr> query = [''timeout'' \<mapsto> JStr ''later''], body = Some [''timeout'' \<mapsto> JNum (Fin 30)] \<rparr>"

definition timeoutOnly :: CliOptions where
  "timeoutOnly =
     \<lparr> fileIni = None, credentialIssuerUri = None, presentationAuthorizeUri = None,
       credentialTypes = None, timeout = Some (Fin 30), maxRetries = None, logLevel = None,
       logFile = None, port = None, saveCredential = None \<rparr>"

text \<open>The messages of the four fields whose coercion can fail, in the order in which
  \<^verbatim>\<open>normalizeCliOptions\<close> evaluates these fields.\<close>

definition fallibleMessages :: "string list" where
  "fallibleMessages =
     [''Invalid numeric value for timeout.'', ''Invalid numeric value for max-retries.'',
      ''Invalid numeric value for port.'', ''Invalid boolean value for save-credential.'']"

text \<open>An input, as a list of its entries, in which every fallible field is invalid.\<close>

definition allInvalid :: "(string \<times> jsval) list" where
  "allInvalid =
     [(''save-credential'', JStr ''maybe''), (''port'', JStr ''x''),
      (''max-retries'', JBool True), (''timeout'', JStr ''soon'')]"

section \<open>Properties of option coercion\<close>

subsection \<open>Auxiliary facts\<close>

lemma coerceNumber_errs:
  "coerceNumber v name errs = (fst (coerceNumber v name []), errs @ snd (coerceNumber v name []))"
  by (cases v) (simp_all add: coerceNumber_def Let_def)

lemma coerceBoolean_errs:
  "coerceBoolean v name errs = (fst (coerceBoolean v name []), errs @ snd (coerceBoolean v name []))"
  by (cases v) (simp_all add: coerceBoolean_def Let_def)

lemma andThen_Inr_iff: "andThen r f = Inr y \<longleftrightarrow> (\<exists>x. r = Inr x \<and> f x = Inr y)"
  by (cases r) (simp_all add: andThen_def)

lemma normalizeCliOptions_Inr:
  assumes "normalizeCliOptions rt input = Inr (opts, errs)"
  shows "coerceString rt (getRawValue input (optionAliases FileIni)) = Inr (fileIni opts)"
    and "coerceString rt (getRawValue input (optionAliases CredentialIssuerUri)) = Inr (credentialIssuerUri opts)"
    and "coerceString rt (getRawValue input (optionAliases PresentationAuthorizeUri)) = Inr (presentationAuthorizeUri opts)"
    and "coerceString rt (getRawValue input (optionAliases CredentialTypes)) = Inr (credentialTypes opts)"
    and "coerceString rt (getRawValue input (optionAliases LogLevel)) = Inr (logLevel opts)"
    and "coerceString rt (getRawValue input (optionAliases LogFile)) = Inr (logFile opts)"
    and "timeout opts = fst (coerceNumber (getRawValue input (optionAliases Timeout)) ''timeout'' [])"
    and "maxRetries opts = fst (coerceNumber (getRawValue input (optionAliases MaxRetries)) ''max-retries'' [])"
    and "port opts = fst (coerceNumber (getRawValue input (optionAliases Port)) ''port'' [])"
    and "saveCredential opts = fst (coerceBoolean (getRawValue input (optionAliases SaveCredential)) ''save-credential'' [])"
    and "errs = snd (coerceNumber (getRawValue input (optionAliases Timeout)) ''timeout'' [])
              @ snd (coerceNumber (getRawValue input (optionAliases MaxRetries)) ''max-retries'' [])
              @ snd (coerceNumber (getRawValue input (optionAliases Port)) ''port'' [])
              @ snd (coerceBoolean (getRawValue input (optionAliases SaveCredential)) ''save-credential'' [])"
proof -
  let ?t = "coerceNumber (getRawValue input (optionAliases Timeout)) ''timeout'' []"
  let ?m = "coerceNumber (getRawValue input (optionAliases MaxRetries)) ''max-retries'' []"
  let ?p = "coerceNumber (getRawValue input (optionAliases Port)) ''port'' []"
  let ?b = "coerceBoolean (getRawValue input (optionAliases SaveCredential)) ''save-credential'' []"
  have m: "coerceNumber (getRawValue input (optionAliases MaxRetries)) ''max-retries'' (snd ?t)
             = (fst ?m, snd ?t @ snd ?m)"
    by (rule coerceNumber_errs)
  have p: "coerceNumber (getRawValue input (optionAliases Port)) ''port'' (snd ?t @ snd ?m)
             = (fst ?p, (snd ?t @ snd ?m) @ snd ?p)"
    by (rule coerceNumber_errs)
  have b: "coerceBoolean (getRawValue input (optionAliases SaveCredential)) ''save-credential''
             ((snd ?t @ snd ?m) @ snd ?p) = (fst ?b, ((snd ?t @ snd ?m) @ snd ?p) @ snd ?b)"
    by (rule coerceBoolean_errs)
  from assms have
    "\<exists>o1 o2 o3 o4 o7 o8.
       coerceString rt (getRawValue input (optionAliases FileIni)) = Inr o1 \<and>
       coerceString rt (getRawValue input (optionAliases CredentialIssuerUri)) = Inr o2 \<and>
       coerceString rt (getRawValue input (optionAliases PresentationAuthorizeUri)) = Inr o3 \<and>
       coerceString rt (getRawValue input (optionAliases CredentialTypes)) = Inr o4 \<and>
       coerceString rt (getRawValue input (optionAliases LogLevel)) = Inr o7 \<and>
       coerceString rt (getRawValue input (optionAliases LogFile)) = Inr o8 \<and>
       opts = \<lparr> fileIni = o1, credentialIssuerUri = o2, presentationAuthorizeUri = o3,
                credentialTypes = o4, timeout = fst ?t, maxRetries = fst ?m, logLevel = o7,
                logFile = o8, port = fst ?p, saveCredential = fst ?b \<rparr> \<and>
       errs = snd ?t @ snd ?m @ snd ?p @ snd ?b"
    unfolding normalizeCliOptions_def Let_def case_prod_beta m p b fst_conv snd_conv andThen_Inr_iff
    by (simp del: optionAliases.simps) blast
  then show
    "coerceString rt (getRawValue input (optionAliases FileIni)) = Inr (fileIni opts)"
    "coerceString rt (getRawValue input (optionAliases CredentialIssuerUri)) = Inr (credentialIssuerUri opts)"
    "coerceString rt (getRawValue input (optionAliases PresentationAuthorizeUri)) = Inr (presentationAuthorizeUri opts)"
    "coerceString rt (getRawValue input (optionAliases CredentialTypes)) = Inr (credentialTypes opts)"
    "coerceString rt (getRawValue input (optionAliases LogLevel)) = Inr (logLevel opts)"
    "coerceString rt (getRawValue input (optionAliases LogFile)) = Inr (logFile opts)"
    "timeout opts = fst ?t" "maxRetries opts = fst ?m" "port opts = fst ?p"
    "saveCredential opts = fst ?b"
    "errs = snd ?t @ snd ?m @ snd ?p @ snd ?b"
    by auto
qed

lemma bitLength_le: "m < 2 ^ k \<Longrightarrow> bitLength m \<le> k"
proof (induction m arbitrary: k rule: bitLength.induct)
  case (1 n)
  show ?case
  proof (cases "n = 0")
    case True
    then show ?thesis by (simp add: bitLength.simps)
  next
    case False
    then obtain j where k: "k = Suc j" using "1.prems" by (cases k) auto
    have "n div 2 < 2 ^ j" using "1.prems" k by auto
    then have "bitLength (n div 2) \<le> j" using "1.IH" False by blast
    then show ?thesis using False k by (simp add: bitLength.simps [of n])
  qed
qed

lemma roundNat_small: "m < 2 ^ 53 \<Longrightarrow> roundNat m = m"
  using bitLength_le [of m 53] by (simp add: roundNat_def)

lemma bitLength_pow53: "bitLength 9007199254740992 = 54"
  by (simp add: bitLength.simps)

lemma roundNat_pow53: "roundNat (2 ^ 53) = 2 ^ 53"
  by (simp add: roundNat_def bitLength_pow53)

lemma roundNat_exact: "m \<le> 2 ^ 53 \<Longrightarrow> roundNat m = m"
  using roundNat_small [of m] roundNat_pow53 by (cases "m = 2 ^ 53") auto

lemma toBinary64_exact: "\<bar>i\<bar> \<le> 2 ^ 53 \<Longrightarrow> toBinary64 i = Fin (of_int i)"
proof -
  assume h: "\<bar>i\<bar> \<le> 2 ^ 53"
  then have m: "nat \<bar>i\<bar> \<le> 2 ^ 53" by (simp add: nat_le_iff)
  have r: "roundNat (nat \<bar>i\<bar>) = nat \<bar>i\<bar>" using roundNat_exact [OF m] .
  have "nat \<bar>i\<bar> < 2 ^ 1024" using m by (rule le_less_trans) simp
  then show ?thesis using r by (auto simp: toBinary64_def Let_def)
qed

lemma toBinary64_not_NaN: "toBinary64 i \<noteq> NaN"
  by (simp add: toBinary64_def Let_def)

lemma lt_pow_bitLength: "m < 2 ^ bitLength m"
proof (induction m rule: bitLength.induct)
  case (1 n)
  show ?case
  proof (cases "n = 0")
    case True
    then show ?thesis by simp
  next
    case False
    then have "n div 2 < 2 ^ bitLength (n div 2)" using 1 by blast
    then have "n < 2 * 2 ^ bitLength (n div 2)" by linarith
    then show ?thesis using False by (simp add: bitLength.simps [of n])
  qed
qed

lemma pow_le_bitLength: "m \<noteq> 0 \<Longrightarrow> 2 ^ (bitLength m - 1) \<le> m"
proof (induction m rule: bitLength.induct)
  case (1 n)
  show ?case
  proof (cases "n div 2 = 0")
    case True
    then have "bitLength (n div 2) = 0" by (simp add: bitLength.simps)
    then show ?thesis using "1.prems" by (simp add: bitLength.simps [of n])
  next
    case False
    then have ih: "2 ^ (bitLength (n div 2) - 1) \<le> n div 2" using 1 by blast
    have pos: "0 < bitLength (n div 2)" using False by (simp add: bitLength.simps [of "n div 2"])
    have "2 * 2 ^ (bitLength (n div 2) - 1) \<le> n" using ih by linarith
    moreover have "2 * 2 ^ (bitLength (n div 2) - 1) = (2::nat) ^ bitLength (n div 2)"
      using pos by (cases "bitLength (n div 2)") simp_all
    ultimately show ?thesis using "1.prems" by (simp add: bitLength.simps [of n])
  qed
qed

lemma bitLength_gt: "2 ^ k \<le> m \<Longrightarrow> k < bitLength m"
proof -
  assume "2 ^ k \<le> m"
  then have "(2::nat) ^ k < 2 ^ bitLength m" using lt_pow_bitLength [of m] by linarith
  then show ?thesis by simp
qed

lemma roundNat_ge: "53 < bitLength m \<Longrightarrow> 2 ^ (bitLength m - 1) \<le> roundNat m"
proof -
  assume b: "53 < bitLength m"
  define e where "e = bitLength m - 53"
  have z: "bitLength 0 = 0" by (simp add: bitLength.simps)
  have m0: "m \<noteq> 0"
  proof
    assume "m = 0"
    then show False using b z by simp
  qed
  have "bitLength m - 1 = 52 + e" using b unfolding e_def by simp
  then have split: "(2::nat) ^ (bitLength m - 1) = 2 ^ 52 * 2 ^ e"
    by (simp only: power_add)
  have "2 ^ 52 * 2 ^ e \<le> m" using pow_le_bitLength [OF m0] split by simp
  then have "(2 ^ 52 * 2 ^ e) div 2 ^ e \<le> m div 2 ^ e" by (rule div_le_mono)
  then have q: "2 ^ 52 \<le> m div 2 ^ e" by simp
  have "m div 2 ^ e * 2 ^ e \<le> roundNat m"
    using b by (simp add: roundNat_def Let_def e_def)
  moreover have "2 ^ 52 * 2 ^ e \<le> m div 2 ^ e * 2 ^ e" using q by (rule mult_le_mono1)
  ultimately show ?thesis using split by linarith
qed

lemma toBinary64_overflow:
  "2 ^ 1024 \<le> \<bar>i\<bar> \<Longrightarrow> toBinary64 i = (if i < 0 then NegInf else PosInf)"
proof -
  assume h: "2 ^ 1024 \<le> \<bar>i\<bar>"
  then have m: "2 ^ 1024 \<le> nat \<bar>i\<bar>" by (simp add: le_nat_iff)
  have bl: "1024 < bitLength (nat \<bar>i\<bar>)" using bitLength_gt [OF m] .
  then have "(2::nat) ^ 1024 \<le> 2 ^ (bitLength (nat \<bar>i\<bar>) - 1)"
    by (intro power_increasing) simp_all
  moreover have "2 ^ (bitLength (nat \<bar>i\<bar>) - 1) \<le> roundNat (nat \<bar>i\<bar>)"
    using bl by (intro roundNat_ge) simp
  ultimately have "2 ^ 1024 \<le> roundNat (nat \<bar>i\<bar>)" by (rule le_trans)
  then show ?thesis by (simp add: toBinary64_def Let_def)
qed

lemma isDigit_not_sign: "isDigit c \<Longrightarrow> c \<noteq> CHR ''+'' \<and> c \<noteq> CHR ''-'' \<and> \<not> isWhiteSpace c"
  by (auto simp: isDigit_def isWhiteSpace_def)

lemma sign_not_space: "\<not> isWhiteSpace CHR ''+''" "\<not> isWhiteSpace CHR ''-''"
  by (simp_all add: isWhiteSpace_def)

lemma takeWhile_digits:
  assumes "\<forall>c\<in>set ds. isDigit c" "rest = [] \<or> \<not> isDigit (hd rest)"
  shows "takeWhile isDigit (ds @ rest) = ds"
proof -
  have "takeWhile isDigit rest = []" using assms(2) by (cases rest) auto
  with assms(1) show ?thesis by simp
qed

lemma parseInt_prefix:
  assumes ws: "\<forall>c\<in>set ws. isWhiteSpace c"
    and sg: "sg = [] \<or> sg = ''+'' \<or> sg = ''-''"
    and ds: "ds \<noteq> []" "\<forall>c\<in>set ds. isDigit c"
    and rest: "rest = [] \<or> \<not> isDigit (hd rest)"
  shows "parseInt (ws @ sg @ ds @ rest)
           = toBinary64 (if sg = ''-'' then - int (digitsVal ds) else int (digitsVal ds))"
proof -
  obtain d ds' where d: "ds = d # ds'" using ds(1) by (cases ds) auto
  have dd: "isDigit d" using ds(2) d by simp
  have nz: "sg @ ds @ rest \<noteq> []" using ds(1) by simp
  have hdns: "\<not> isWhiteSpace (hd (sg @ ds @ rest))"
    using sg dd d isDigit_not_sign [of d] sign_not_space by auto
  have s1: "dropWhile isWhiteSpace (ws @ sg @ ds @ rest) = sg @ ds @ rest"
    using ws nz hdns by (cases "sg @ ds @ rest") simp_all
  have tw: "takeWhile isDigit (ds @ rest) = ds" by (rule takeWhile_digits [OF ds(2) rest])
  from sg show ?thesis
  proof (elim disjE)
    assume "sg = []"
    then show ?thesis
      using s1 tw ds(1) d isDigit_not_sign [OF dd] by (simp add: parseInt_def Let_def)
  next
    assume "sg = ''+''"
    then show ?thesis
      using s1 tw ds(1) by (simp add: parseInt_def Let_def)
  next
    assume "sg = ''-''"
    then show ?thesis
      using s1 tw ds(1) by (simp add: parseInt_def Let_def)
  qed
qed

lemma digitsVal_snoc: "digitsVal (ds @ [c]) = 10 * digitsVal ds + digitVal c"
  by (simp add: digitsVal_def)

lemma digitVal_digitChar: "d < 10 \<Longrightarrow> digitVal (digitChar d) = d"
proof -
  assume "d < 10"
  then have "d \<in> {0,1,2,3,4,5,6,7,8,9}" by auto
  then show ?thesis by (auto simp: digitVal_def digitChar_def)
qed

lemma digitsVal_showNat: "digitsVal (showNat n) = n"
proof (induction n rule: showNat.induct)
  case (1 n)
  show ?case
  proof (cases "n < 10")
    case True
    then show ?thesis
      using digitsVal_snoc [of "[]" "digitChar n"]
      by (simp add: showNat.simps [of n] digitVal_digitChar digitsVal_def)
  next
    case False
    then show ?thesis using 1
      by (simp add: showNat.simps [of n] digitsVal_snoc digitVal_digitChar)
  qed
qed


subsection \<open>The boolean field\<close>

text \<open>
  Claim C5. For every raw value of \<^verbatim>\<open>saveCredential\<close>: \<^verbatim>\<open>undefined\<close> and \<^verbatim>\<open>null\<close>
  leave the field absent with no error; a boolean passes through unchanged; a string is
  trimmed and lower-cased, and gives \<open>true\<close> when it is one of \<^verbatim>\<open>true\<close>, \<^verbatim>\<open>1\<close>, \<^verbatim>\<open>yes\<close>,
  \<open>false\<close> when it is one of \<^verbatim>\<open>false\<close>, \<^verbatim>\<open>0\<close>, \<^verbatim>\<open>no\<close>; any other string and any
  other type of value append exactly \<^verbatim>\<open>Invalid boolean value for save-credential.\<close> and
  leave the field absent. \<^verbatim>\<open>normalizeCliOptions\<close> calls the coercion with the name
  \<^verbatim>\<open>save-credential\<close>, last of all fields.
\<close>

theorem coerceBoolean_cases:
  "(v = JUndefined \<or> v = JNull \<longrightarrow> coerceBoolean v name errs = (None, errs))
   \<and> coerceBoolean (JBool b) name errs = (Some b, errs)
   \<and> (toLowerCase (trim s) \<in> {''true'', ''1'', ''yes''}
        \<longrightarrow> coerceBoolean (JStr s) name errs = (Some True, errs))
   \<and> (toLowerCase (trim s) \<in> {''false'', ''0'', ''no''}
        \<longrightarrow> coerceBoolean (JStr s) name errs = (Some False, errs))
   \<and> (toLowerCase (trim s) \<notin> {''true'', ''1'', ''yes'', ''false'', ''0'', ''no''}
        \<longrightarrow> coerceBoolean (JStr s) name errs
              = (None, errs @ [''Invalid boolean value for '' @ name @ ''.'']))
   \<and> (v = JNum n \<or> v = JArr xs \<or> v = JObj kvs
        \<longrightarrow> coerceBoolean v name errs
              = (None, errs @ [''Invalid boolean value for '' @ name @ ''.'']))
   \<and> (normalizeCliOptions rt input = Inr (opts, errors)
        \<longrightarrow> saveCredential opts
              = fst (coerceBoolean (getRawValue input [''saveCredential'', ''save-credential''])
                       ''save-credential'' [])
          \<and> (\<exists>earlier. errors = earlier
                @ snd (coerceBoolean (getRawValue input [''saveCredential'', ''save-credential''])
                         ''save-credential'' [])))"
proof -
  have "normalizeCliOptions rt input = Inr (opts, errors)
        \<Longrightarrow> saveCredential opts
              = fst (coerceBoolean (getRawValue input [''saveCredential'', ''save-credential''])
                       ''save-credential'' [])
          \<and> (\<exists>earlier. errors = earlier
                @ snd (coerceBoolean (getRawValue input [''saveCredential'', ''save-credential''])
                         ''save-credential'' []))"
    using normalizeCliOptions_Inr(10,11) [of rt input opts errors]
    by (metis append.assoc optionAliases.simps(10))
  then show ?thesis
    by (auto simp: coerceBoolean_def Let_def truthyValues_def falsyValues_def)
qed

theorem coerceBoolean_cases_witness:
  "coerceBoolean JNull ''save-credential'' [] = (None, [])
   \<and> coerceBoolean (JStr '' Yes '') ''save-credential'' [] = (Some True, [])
   \<and> coerceBoolean (JStr ''0'') ''save-credential'' [] = (Some False, [])
   \<and> coerceBoolean (JStr ''maybe'') ''save-credential'' []
       = (None, [''Invalid boolean value for save-credential.''])
   \<and> coerceBoolean (JNum (Fin 1)) ''save-credential'' []
       = (None, [''Invalid boolean value for save-credential.''])
   \<and> normalizeCliOptions exampleRuntime [''save-credential'' \<mapsto> JStr ''maybe'']
       = Inr (noOptions, [''Invalid boolean value for save-credential.''])
   \<and> saveCredential noOptions = None"
proof -
  have t: "toLowerCase (trim '' Yes '') \<in> {''true'', ''1'', ''yes''}"
    by (simp add: toLowerCase_def trim_def toLowerChar_def isWhiteSpace_def char_of_eq_iff)
  have f: "toLowerCase (trim ''0'') \<in> {''false'', ''0'', ''no''}"
    by (simp add: toLowerCase_def trim_def toLowerChar_def isWhiteSpace_def char_of_eq_iff)
  have u: "toLowerCase (trim ''maybe'') \<notin> {''true'', ''1'', ''yes'', ''false'', ''0'', ''no''}"
    by (simp add: toLowerCase_def trim_def toLowerChar_def isWhiteSpace_def char_of_eq_iff)
  have raw: "getRawValue [''save-credential'' \<mapsto> JStr ''maybe''] [''saveCredential'', ''save-credential'']
               = JStr ''maybe''"
    by simp
  have n: "normalizeCliOptions exampleRuntime [''save-credential'' \<mapsto> JStr ''maybe'']
             = Inr (noOptions, [''Invalid boolean value for save-credential.''])"
    using u
    by (simp add: normalizeCliOptions_def andThen_def coerceString_def coerceNumber_def
        coerceBoolean_def truthyValues_def falsyValues_def noOptions_def)
  have a: "coerceBoolean JNull ''save-credential'' [] = (None, [])"
    using coerceBoolean_cases [where v = JNull and name = "''save-credential''" and errs = "[]"]
    by simp
  have b: "coerceBoolean (JStr '' Yes '') ''save-credential'' [] = (Some True, [])"
    using t coerceBoolean_cases [where s = "'' Yes ''" and name = "''save-credential''" and errs = "[]"]
    by blast
  have c: "coerceBoolean (JStr ''0'') ''save-credential'' [] = (Some False, [])"
    using f coerceBoolean_cases [where s = "''0''" and name = "''save-credential''" and errs = "[]"]
    by blast
  have d: "coerceBoolean (JStr ''maybe'') ''save-credential'' []
             = (None, [''Invalid boolean value for save-credential.''])"
    using u coerceBoolean_cases [where s = "''maybe''" and name = "''save-credential''" and errs = "[]"]
    by simp
  have e: "coerceBoolean (JNum (Fin 1)) ''save-credential'' []
             = (None, [''Invalid boolean value for save-credential.''])"
    using coerceBoolean_cases [where v = "JNum (Fin 1)" and n = "Fin 1"
        and name = "''save-credential''" and errs = "[]"]
    by simp
  have g: "saveCredential noOptions = None"
    using n raw d coerceBoolean_cases [where rt = exampleRuntime
        and input = "[''save-credential'' \<mapsto> JStr ''maybe'']" and opts = noOptions
        and errors = "[''Invalid boolean value for save-credential.'']"]
    by simp
  show ?thesis using a b c d e n g by simp
qed

subsection \<open>The numeric fields\<close>

text \<open>
  Claim C2. For every raw value of a numeric field: \<^verbatim>\<open>undefined\<close>, \<^verbatim>\<open>null\<close> and the
  empty string leave the field absent with no error; a number that is not NaN is accepted
  unchanged; a string is parsed as a base-10 integer; when the parse gives NaN, or the
  value is NaN or of any other type, exactly the message
  \<^verbatim>\<open>Invalid numeric value for <option-name>.\<close> is appended and the field is left absent.
  \<^verbatim>\<open>normalizeCliOptions\<close> passes the names \<^verbatim>\<open>timeout\<close>, \<^verbatim>\<open>max-retries\<close> and
  \<^verbatim>\<open>port\<close>, and its error list starts with the messages of these three fields.
\<close>

theorem coerceNumber_cases:
  "(v = JUndefined \<or> v = JNull \<or> v = JStr '''' \<longrightarrow> coerceNumber v name errs = (None, errs))
   \<and> (n \<noteq> NaN \<longrightarrow> coerceNumber (JNum n) name errs = (Some n, errs))
   \<and> (s \<noteq> '''' \<and> parseInt s \<noteq> NaN
        \<longrightarrow> coerceNumber (JStr s) name errs = (Some (parseInt s), errs))
   \<and> (s \<noteq> '''' \<and> parseInt s = NaN
        \<longrightarrow> coerceNumber (JStr s) name errs
              = (None, errs @ [''Invalid numeric value for '' @ name @ ''.'']))
   \<and> (v = JNum NaN \<or> v = JBool b \<or> v = JArr xs \<or> v = JObj kvs
        \<longrightarrow> coerceNumber v name errs
              = (None, errs @ [''Invalid numeric value for '' @ name @ ''.'']))
   \<and> (normalizeCliOptions rt input = Inr (opts, errors)
        \<longrightarrow> timeout opts = fst (coerceNumber (getRawValue input [''timeout'']) ''timeout'' [])
          \<and> maxRetries opts
              = fst (coerceNumber (getRawValue input [''maxRetries'', ''max-retries'']) ''max-retries'' [])
          \<and> port opts = fst (coerceNumber (getRawValue input [''port'']) ''port'' [])
          \<and> (\<exists>later. errors
                = snd (coerceNumber (getRawValue input [''timeout'']) ''timeout'' [])
                @ snd (coerceNumber (getRawValue input [''maxRetries'', ''max-retries''])
                         ''max-retries'' [])
                @ snd (coerceNumber (getRawValue input [''port'']) ''port'' [])
                @ later))"
proof -
  have "normalizeCliOptions rt input = Inr (opts, errors)
        \<Longrightarrow> timeout opts = fst (coerceNumber (getRawValue input [''timeout'']) ''timeout'' [])
          \<and> maxRetries opts
              = fst (coerceNumber (getRawValue input [''maxRetries'', ''max-retries'']) ''max-retries'' [])
          \<and> port opts = fst (coerceNumber (getRawValue input [''port'']) ''port'' [])
          \<and> (\<exists>later. errors
                = snd (coerceNumber (getRawValue input [''timeout'']) ''timeout'' [])
                @ snd (coerceNumber (getRawValue input [''maxRetries'', ''max-retries''])
                         ''max-retries'' [])
                @ snd (coerceNumber (getRawValue input [''port'']) ''port'' [])
                @ later)"
    using normalizeCliOptions_Inr(7,8,9,11) [of rt input opts errors]
    unfolding optionAliases.simps by blast
  then show ?thesis
    by (auto simp: coerceNumber_def Let_def)
qed

theorem coerceNumber_cases_witness:
  "coerceNumber JUndefined ''timeout'' [] = (None, [])
   \<and> coerceNumber (JStr '''') ''timeout'' [] = (None, [])
   \<and> coerceNumber (JNum (Fin 30)) ''timeout'' [] = (Some (Fin 30), [])
   \<and> coerceNumber (JStr ''30'') ''timeout'' [] = (Some (Fin 30), [])
   \<and> coerceNumber (JStr ''abc'') ''timeout'' [] = (None, [''Invalid numeric value for timeout.''])
   \<and> coerceNumber (JBool True) ''port'' [] = (None, [''Invalid numeric value for port.''])
   \<and> normalizeCliOptions exampleRuntime [''maxRetries'' \<mapsto> JStr ''abc'', ''port'' \<mapsto> JArr []]
       = Inr (noOptions, [''Invalid numeric value for max-retries.'', ''Invalid numeric value for port.''])"
proof -
  have p30: "parseInt ''30'' = Fin 30"
    by (simp add: parseInt_def isWhiteSpace_def isDigit_def digitsVal_def digitVal_def
        toBinary64_exact)
  have pabc: "parseInt ''abc'' = NaN"
    by (simp add: parseInt_def isWhiteSpace_def isDigit_def)
  have n: "normalizeCliOptions exampleRuntime [''maxRetries'' \<mapsto> JStr ''abc'', ''port'' \<mapsto> JArr []]
       = Inr (noOptions, [''Invalid numeric value for max-retries.'', ''Invalid numeric value for port.''])"
    using pabc
    by (simp add: normalizeCliOptions_def andThen_def coerceString_def coerceNumber_def
        coerceBoolean_def noOptions_def)
  have a: "coerceNumber JUndefined ''timeout'' [] = (None, [])"
    using coerceNumber_cases [where v = JUndefined and name = "''timeout''" and errs = "[]"] by simp
  have b: "coerceNumber (JStr '''') ''timeout'' [] = (None, [])"
    using coerceNumber_cases [where v = "JStr ''''" and name = "''timeout''" and errs = "[]"] by simp
  have c: "coerceNumber (JNum (Fin 30)) ''timeout'' [] = (Some (Fin 30), [])"
    using coerceNumber_cases [where n = "Fin 30" and name = "''timeout''" and errs = "[]"] by simp
  have d: "coerceNumber (JStr ''30'') ''timeout'' [] = (Some (Fin 30), [])"
    using p30 coerceNumber_cases [where s = "''30''" and name = "''timeout''" and errs = "[]"] by simp
  have e: "coerceNumber (JStr ''abc'') ''timeout'' [] = (None, [''Invalid numeric value for timeout.''])"
    using pabc coerceNumber_cases [where s = "''abc''" and name = "''timeout''" and errs = "[]"] by simp
  have f: "coerceNumber (JBool True) ''port'' [] = (None, [''Invalid numeric value for port.''])"
    using coerceNumber_cases [where v = "JBool True" and b = True and name = "''port''" and errs = "[]"]
    by simp
  have g: "maxRetries noOptions
              = fst (coerceNumber (getRawValue [''maxRetries'' \<mapsto> JStr ''abc'', ''port'' \<mapsto> JArr []]
                   [''maxRetries'', ''max-retries'']) ''max-retries'' [])"
    using n coerceNumber_cases [where rt = exampleRuntime
        and input = "[''maxRetries'' \<mapsto> JStr ''abc'', ''port'' \<mapsto> JArr []]" and opts = noOptions
        and errors = "[''Invalid numeric value for max-retries.'', ''Invalid numeric value for port.'']"]
    by blast
  show ?thesis using a b c d e f n g by simp
qed

text \<open>
  Claim C10, as the code has it. A string that starts with white space (or none), a sign
  (or none) and at least one decimal digit is coerced, with no error and whatever
  follows the digits, to the binary64 number of the value of its longest run of leading
  digits. That number is the value itself when its magnitude is at most \<open>2^53\<close>:
  \<^verbatim>\<open>12abc\<close> gives 12 and \<^verbatim>\<open>3.9\<close> gives 3. Above, the value is rounded to 53
  significant bits, and from \<open>2^1024\<close> on it is an infinity. A number that is not NaN is
  accepted as it is, with no rounding and no range check: 3.5 and -1 pass for
  \<^verbatim>\<open>timeout\<close>, \<^verbatim>\<open>maxRetries\<close> and \<^verbatim>\<open>port\<close>.
\<close>

theorem coerceNumber_lenient:
  "((\<forall>c\<in>set ws. isWhiteSpace c) \<and> (sg = [] \<or> sg = ''+'' \<or> sg = ''-'')
      \<and> ds \<noteq> [] \<and> (\<forall>c\<in>set ds. isDigit c) \<and> (rest = [] \<or> \<not> isDigit (hd rest))
     \<longrightarrow> coerceNumber (JStr (ws @ sg @ ds @ rest)) name errs
           = (Some (toBinary64 (if sg = ''-'' then - int (digitsVal ds) else int (digitsVal ds))),
              errs))
   \<and> (\<bar>i\<bar> \<le> 2 ^ 53 \<longrightarrow> toBinary64 i = Fin (of_int i))
   \<and> (2 ^ 1024 \<le> \<bar>i\<bar> \<longrightarrow> toBinary64 i = (if i < 0 then NegInf else PosInf))
   \<and> toBinary64 i \<noteq> NaN
   \<and> coerceNumber (JStr ''12abc'') name errs = (Some (Fin 12), errs)
   \<and> coerceNumber (JStr ''3.9'') name errs = (Some (Fin 3), errs)
   \<and> (n \<noteq> NaN \<longrightarrow> coerceNumber (JNum n) name errs = (Some n, errs))
   \<and> coerceNumber (JNum (Fin (7 / 2))) name errs = (Some (Fin (7 / 2)), errs)
   \<and> coerceNumber (JNum (Fin (- 1))) name errs = (Some (Fin (- 1)), errs)
   \<and> normalizeCliOptions rt
        [''timeout'' \<mapsto> JNum (Fin (7 / 2)), ''maxRetries'' \<mapsto> JNum (Fin (- 1)),
         ''port'' \<mapsto> JNum (Fin (- 1))]
       = Inr (\<lparr> fileIni = None, credentialIssuerUri = None, presentationAuthorizeUri = None,
                credentialTypes = None, timeout = Some (Fin (7 / 2)),
                maxRetries = Some (Fin (- 1)), logLevel = None, logFile = None,
                port = Some (Fin (- 1)), saveCredential = None \<rparr>, [])"
proof -
  have gen: "coerceNumber (JStr (ws @ sg @ ds @ rest)) name errs
           = (Some (toBinary64 (if sg = ''-'' then - int (digitsVal ds) else int (digitsVal ds))),
              errs)"
    if "\<forall>c\<in>set ws. isWhiteSpace c" "sg = [] \<or> sg = ''+'' \<or> sg = ''-''"
      "ds \<noteq> []" "\<forall>c\<in>set ds. isDigit c" "rest = [] \<or> \<not> isDigit (hd rest)"
    using parseInt_prefix [OF that] that(3) toBinary64_not_NaN
    by (simp add: coerceNumber_def Let_def)
  have ex: "\<bar>i\<bar> \<le> 2 ^ 53 \<longrightarrow> toBinary64 i = Fin (of_int i)"
    using toBinary64_exact by blast
  have ov: "2 ^ 1024 \<le> \<bar>i\<bar> \<longrightarrow> toBinary64 i = (if i < 0 then NegInf else PosInf)"
    using toBinary64_overflow by blast
  have nn: "toBinary64 i \<noteq> NaN" by (rule toBinary64_not_NaN)
  have p1: "parseInt ''12abc'' = Fin 12"
    by (simp add: parseInt_def isWhiteSpace_def isDigit_def digitsVal_def digitVal_def
        toBinary64_exact)
  have p2: "parseInt ''3.9'' = Fin 3"
    by (simp add: parseInt_def isWhiteSpace_def isDigit_def digitsVal_def digitVal_def
        toBinary64_exact)
  have e1: "coerceNumber (JStr ''12abc'') name errs = (Some (Fin 12), errs)"
    using p1 by (simp add: coerceNumber_def)
  have e2: "coerceNumber (JStr ''3.9'') name errs = (Some (Fin 3), errs)"
    using p2 by (simp add: coerceNumber_def)
  have num: "n \<noteq> NaN \<longrightarrow> coerceNumber (JNum n) name errs = (Some n, errs)"
    by (simp add: coerceNumber_def)
  have e3: "coerceNumber (JNum (Fin (7 / 2))) name errs = (Some (Fin (7 / 2)), errs)"
      "coerceNumber (JNum (Fin (- 1))) name errs = (Some (Fin (- 1)), errs)"
    by (simp_all add: coerceNumber_def)
  have norm: "normalizeCliOptions rt
        [''timeout'' \<mapsto> JNum (Fin (7 / 2)), ''maxRetries'' \<mapsto> JNum (Fin (- 1)),
         ''port'' \<mapsto> JNum (Fin (- 1))]
       = Inr (\<lparr> fileIni = None, credentialIssuerUri = None, presentationAuthorizeUri = None,
                credentialTypes = None, timeout = Some (Fin (7 / 2)),
                maxRetries = Some (Fin (- 1)), logLevel = None, logFile = None,
                port = Some (Fin (- 1)), saveCredential = None \<rparr>, [])"
    by (simp add: normalizeCliOptions_def andThen_def coerceString_def coerceNumber_def
        coerceBoolean_def)
  show ?thesis
    using gen ex ov nn e1 e2 num e3 norm by (intro conjI impI) blast+
qed

text \<open>
  Claim C10 as stated fails above \<open>2^53\<close>: the digits \<^verbatim>\<open>9007199254740993\<close> have the
  value \<open>2^53 + 1\<close>, and the coercion returns \<open>2^53\<close>.
\<close>

theorem coerceNumber_rounds_counterexample:
  "coerceNumber (JStr ''9007199254740993'') ''timeout'' [] = (Some (Fin 9007199254740992), [])
   \<and> digitsVal ''9007199254740993'' = 9007199254740993
   \<and> Fin (of_nat (digitsVal ''9007199254740993'')) \<noteq> Fin 9007199254740992"
proof -
  have d: "digitsVal ''9007199254740993'' = 9007199254740993"
    by (simp add: digitsVal_def digitVal_def)
  have r: "toBinary64 9007199254740993 = Fin 9007199254740992"
    by (simp add: toBinary64_def roundNat_def bitLength.simps)
  have t: "takeWhile isDigit ''9007199254740993'' = ''9007199254740993''"
    by (simp add: isDigit_def)
  have p: "parseInt ''9007199254740993'' = Fin 9007199254740992"
    using t d r by (simp add: parseInt_def isWhiteSpace_def)
  show ?thesis using p d by (simp add: coerceNumber_def)
qed

theorem coerceNumber_lenient_witness:
  "coerceNumber (JStr ''  -42px'') ''port'' [] = (Some (Fin (- 42)), [])
   \<and> coerceNumber (JStr ''9007199254740992'') ''port'' [] = (Some (Fin 9007199254740992), [])
   \<and> toBinary64 (- (2 ^ 1024)) = NegInf
   \<and> coerceNumber (JNum (Fin (7 / 2))) ''timeout'' [] = (Some (Fin (7 / 2)), [])"
proof -
  have dv: "digitsVal ''42'' = 42" "digitsVal ''9007199254740992'' = 9007199254740992"
    by (simp_all add: digitsVal_def digitVal_def)
  have h: "(\<forall>c\<in>set ''  ''. isWhiteSpace c) \<and> (''-'' = [] \<or> ''-'' = ''+'' \<or> ''-'' = ''-'')
      \<and> ''42'' \<noteq> [] \<and> (\<forall>c\<in>set ''42''. isDigit c) \<and> (''px'' = [] \<or> \<not> isDigit (hd ''px''))"
    by (simp add: isWhiteSpace_def isDigit_def)
  have h2: "(\<forall>c\<in>set ''''. isWhiteSpace c) \<and> ([] = [] \<or> [] = ''+'' \<or> [] = ''-'')
      \<and> ''9007199254740992'' \<noteq> [] \<and> (\<forall>c\<in>set ''9007199254740992''. isDigit c)
      \<and> ([] = [] \<or> \<not> isDigit (hd []))"
    by (simp add: isDigit_def)
  have s: "\<bar>- 42 :: int\<bar> \<le> 2 ^ 53" "\<bar>9007199254740992 :: int\<bar> \<le> 2 ^ 53"
      "(2::int) ^ 1024 \<le> \<bar>- (2 ^ 1024)\<bar>"
    by simp_all
  have x: "toBinary64 (- 42) = Fin (- 42)"
    using s(1) coerceNumber_lenient [where i = "- 42"] by simp
  have y: "toBinary64 9007199254740992 = Fin 9007199254740992"
    using s(2) coerceNumber_lenient [where i = 9007199254740992] by simp
  have a: "coerceNumber (JStr (''  '' @ ''-'' @ ''42'' @ ''px'')) ''port'' [] = (Some (Fin (- 42)), [])"
    using h dv x coerceNumber_lenient [where ws = "''  ''" and sg = "''-''" and ds = "''42''"
        and rest = "''px''" and name = "''port''" and errs = "[]"]
    by simp
  have b: "coerceNumber (JStr ('''' @ [] @ ''9007199254740992'' @ [])) ''port'' []
             = (Some (Fin 9007199254740992), [])"
    using h2 dv y coerceNumber_lenient [where ws = "[]" and sg = "[]"
        and ds = "''9007199254740992''" and rest = "[]" and name = "''port''" and errs = "[]"]
    by simp
  have c: "toBinary64 (- (2 ^ 1024)) = NegInf"
    using s(3) coerceNumber_lenient [where i = "- (2 ^ 1024)"] by simp
  have d: "coerceNumber (JNum (Fin (7 / 2))) ''timeout'' [] = (Some (Fin (7 / 2)), [])"
    using coerceNumber_lenient [where n = "Fin (7 / 2)" and name = "''timeout''" and errs = "[]"]
    by simp
  show ?thesis using a b c d by simp
qed

subsection \<open>Aliases\<close>

lemma getRawValue_find:
  "getRawValue input aliases
     = (case find (\<lambda>a. input a \<noteq> None) aliases of None \<Rightarrow> JUndefined | Some a \<Rightarrow> the (input a))"
  by (induction aliases) (auto split: option.splits)


text \<open>
  Claim C6. The lookup of a field probes the aliases of the option in their declared
  order and the first key present in the input wins. For every option the first alias is
  the camel-case key (no hyphen) and any other alias is hyphenated. Hence
  \<^verbatim>\<open>{"max-retries": "5"}\<close> and \<^verbatim>\<open>{"maxRetries": "5"}\<close> both give \<open>maxRetries = 5\<close>, and
  with both keys present the camel-case value is taken.
\<close>

theorem getRawValue_first_match:
  "getRawValue input aliases
     = (case find (\<lambda>a. input a \<noteq> None) aliases of None \<Rightarrow> JUndefined | Some a \<Rightarrow> the (input a))
   \<and> CHR ''-'' \<notin> set (hd (optionAliases k))
   \<and> (\<forall>a\<in>set (tl (optionAliases k)). CHR ''-'' \<in> set a)
   \<and> (input (hd (optionAliases k)) = Some v \<longrightarrow> getRawValue input (optionAliases k) = v)
   \<and> (input (hd (optionAliases k)) = None \<and> input (last (optionAliases k)) = Some v
        \<longrightarrow> getRawValue input (optionAliases k) = v)
   \<and> ((\<forall>a\<in>set (optionAliases k). input a = None) \<longrightarrow> getRawValue input (optionAliases k) = JUndefined)
   \<and> (normalizeCliOptions rt input = Inr (opts, errors) \<and> input ''maxRetries'' = Some v
        \<longrightarrow> maxRetries opts = fst (coerceNumber v ''max-retries'' []))
   \<and> (normalizeCliOptions rt input = Inr (opts, errors) \<and> input ''maxRetries'' = None
        \<and> input ''max-retries'' = Some v
        \<longrightarrow> maxRetries opts = fst (coerceNumber v ''max-retries'' []))"
proof -
  have mr: "maxRetries opts = fst (coerceNumber (getRawValue input (optionAliases MaxRetries)) ''max-retries'' [])"
    if "normalizeCliOptions rt input = Inr (opts, errors)"
    using normalizeCliOptions_Inr(8) [OF that] .
  have 1: "CHR ''-'' \<notin> set (hd (optionAliases k))" by (cases k) simp_all
  have 2: "\<forall>a\<in>set (tl (optionAliases k)). CHR ''-'' \<in> set a" by (cases k) simp_all
  have 3: "getRawValue input (optionAliases k) = v" if "input (hd (optionAliases k)) = Some v"
    using that by (cases k) simp_all
  have 4: "getRawValue input (optionAliases k) = v"
    if "input (hd (optionAliases k)) = None" "input (last (optionAliases k)) = Some v"
    using that by (cases k) simp_all
  have 5: "getRawValue input (optionAliases k) = JUndefined"
    if "\<forall>a\<in>set (optionAliases k). input a = None"
    using that by (cases k) simp_all
  have 6: "maxRetries opts = fst (coerceNumber v ''max-retries'' [])"
    if "normalizeCliOptions rt input = Inr (opts, errors)" "input ''maxRetries'' = Some v"
    using mr [OF that(1)] that(2) by simp
  have 7: "maxRetries opts = fst (coerceNumber v ''max-retries'' [])"
    if "normalizeCliOptions rt input = Inr (opts, errors)" "input ''maxRetries'' = None"
       "input ''max-retries'' = Some v"
    using mr [OF that(1)] that(2,3) by simp
  show ?thesis
    using getRawValue_find [of input aliases] 1 2 3 4 5 6 7 by blast
qed

theorem getRawValue_first_match_witness:
  "(\<exists>opts. normalizeCliOptions exampleRuntime [''max-retries'' \<mapsto> JStr ''5''] = Inr (opts, [])
        \<and> maxRetries opts = Some (Fin 5))
   \<and> (\<exists>opts. normalizeCliOptions exampleRuntime [''maxRetries'' \<mapsto> JStr ''5''] = Inr (opts, [])
        \<and> maxRetries opts = Some (Fin 5))
   \<and> (\<exists>opts. normalizeCliOptions exampleRuntime
                [''max-retries'' \<mapsto> JStr ''7'', ''maxRetries'' \<mapsto> JStr ''5''] = Inr (opts, [])
        \<and> maxRetries opts = Some (Fin 5))
   \<and> getRawValue [''max-retries'' \<mapsto> JStr ''7'', ''maxRetries'' \<mapsto> JStr ''5'']
        (optionAliases MaxRetries) = JStr ''5''
   \<and> getRawValue [''log-level'' \<mapsto> JStr ''INFO''] (optionAliases LogLevel) = JStr ''INFO''
   \<and> getRawValue [''log-level'' \<mapsto> JStr ''INFO''] (optionAliases Port) = JUndefined"
proof -
  have p5: "parseInt ''5'' = Fin 5"
    by (simp add: parseInt_def isWhiteSpace_def isDigit_def digitsVal_def digitVal_def
        toBinary64_exact)
  have p7: "parseInt ''7'' = Fin 7"
    by (simp add: parseInt_def isWhiteSpace_def isDigit_def digitsVal_def digitVal_def
        toBinary64_exact)
  let ?o = "noOptions\<lparr>maxRetries := Some (Fin 5)\<rparr>"
  have n1: "normalizeCliOptions exampleRuntime [''max-retries'' \<mapsto> JStr ''5''] = Inr (?o, [])"
    using p5 by (simp add: normalizeCliOptions_def andThen_def coerceString_def coerceNumber_def
        coerceBoolean_def noOptions_def)
  have n2: "normalizeCliOptions exampleRuntime [''maxRetries'' \<mapsto> JStr ''5''] = Inr (?o, [])"
    using p5 by (simp add: normalizeCliOptions_def andThen_def coerceString_def coerceNumber_def
        coerceBoolean_def noOptions_def)
  have n3: "normalizeCliOptions exampleRuntime
                [''max-retries'' \<mapsto> JStr ''7'', ''maxRetries'' \<mapsto> JStr ''5''] = Inr (?o, [])"
    using p5 p7 by (simp add: normalizeCliOptions_def andThen_def coerceString_def coerceNumber_def
        coerceBoolean_def noOptions_def)
  have m1: "maxRetries ?o = Some (Fin 5)"
    using n1 p5 getRawValue_first_match [where rt = exampleRuntime
        and input = "[''max-retries'' \<mapsto> JStr ''5'']" and opts = ?o and errors = "[]" and v = "JStr ''5''"]
    by (simp add: coerceNumber_def)
  have m2: "maxRetries ?o = Some (Fin 5)"
    using n2 p5 getRawValue_first_match [where rt = exampleRuntime
        and input = "[''maxRetries'' \<mapsto> JStr ''5'']" and opts = ?o and errors = "[]" and v = "JStr ''5''"]
    by (simp add: coerceNumber_def)
  have m3: "maxRetries ?o = Some (Fin 5)"
    using n3 p5 getRawValue_first_match [where rt = exampleRuntime
        and input = "[''max-retries'' \<mapsto> JStr ''7'', ''maxRetries'' \<mapsto> JStr ''5'']"
        and opts = ?o and errors = "[]" and v = "JStr ''5''"]
    by (simp add: coerceNumber_def)
  have g1: "getRawValue [''max-retries'' \<mapsto> JStr ''7'', ''maxRetries'' \<mapsto> JStr ''5'']
        (optionAliases MaxRetries) = JStr ''5''"
    using getRawValue_first_match [where k = MaxRetries and v = "JStr ''5''"
        and input = "[''max-retries'' \<mapsto> JStr ''7'', ''maxRetries'' \<mapsto> JStr ''5'']"]
    by simp
  have g2: "getRawValue [''log-level'' \<mapsto> JStr ''INFO''] (optionAliases LogLevel) = JStr ''INFO''"
    using getRawValue_first_match [where k = LogLevel and v = "JStr ''INFO''"
        and input = "[''log-level'' \<mapsto> JStr ''INFO'']"]
    by simp
  have g3: "getRawValue [''log-level'' \<mapsto> JStr ''INFO''] (optionAliases Port) = JUndefined"
    using getRawValue_first_match [where k = Port and input = "[''log-level'' \<mapsto> JStr ''INFO'']"]
    by simp
  show ?thesis using n1 n2 n3 m1 m2 m3 g1 g2 g3 by simp
qed

subsection \<open>The order of the validation errors\<close>

lemma coerceNumber_snd:
  "snd (coerceNumber v name []) = [] \<or> snd (coerceNumber v name []) = [''Invalid numeric value for '' @ name @ ''.'']"
  by (cases v) (simp_all add: coerceNumber_def Let_def)

lemma coerceBoolean_snd:
  "snd (coerceBoolean v name []) = [] \<or> snd (coerceBoolean v name []) = [''Invalid boolean value for '' @ name @ ''.'']"
  by (cases v) (simp_all add: coerceBoolean_def Let_def)

lemma subseq_four:
  assumes "a = [] \<or> a = [x1]" "b = [] \<or> b = [x2]" "c = [] \<or> c = [x3]" "d = [] \<or> d = [x4]"
  shows "subseq (a @ b @ c @ d) [x1, x2, x3, x4]"
proof -
  have "subseq a [x1]" "subseq b [x2]" "subseq c [x3]" "subseq d [x4]"
    using assms by auto
  then have "subseq (a @ b @ c @ d) ([x1] @ [x2] @ [x3] @ [x4])"
    by (intro list_emb_append_mono)
  then show ?thesis by simp
qed


text \<open>
  Claim C9. The error list that \<^verbatim>\<open>normalizeCliOptions\<close> returns holds only messages of
  the four fallible fields, in the fixed order timeout, max-retries, port,
  save-credential: it is a subsequence of that list of four messages, so it has at most
  four entries and none twice. The order of the keys in the input does not matter: two
  listings of the same entries give the same result.
\<close>

theorem errors_fixed_order:
  "(normalizeCliOptions rt input = Inr (opts, errors)
      \<longrightarrow> subseq errors fallibleMessages \<and> length errors \<le> 4 \<and> distinct errors)
   \<and> (distinct (map fst kvs) \<and> distinct (map fst kvs') \<and> set kvs = set kvs'
      \<longrightarrow> normalizeCliOptions rt (map_of kvs) = normalizeCliOptions rt (map_of kvs'))"
proof -
  have d: "distinct fallibleMessages" by (simp add: fallibleMessages_def)
  have 1: "subseq errors fallibleMessages \<and> length errors \<le> 4 \<and> distinct errors"
    if h: "normalizeCliOptions rt input = Inr (opts, errors)"
  proof -
    have s: "subseq errors fallibleMessages"
      unfolding normalizeCliOptions_Inr(11) [OF h] fallibleMessages_def
      using coerceNumber_snd [of "getRawValue input (optionAliases Timeout)" "''timeout''"]
        coerceNumber_snd [of "getRawValue input (optionAliases MaxRetries)" "''max-retries''"]
        coerceNumber_snd [of "getRawValue input (optionAliases Port)" "''port''"]
        coerceBoolean_snd [of "getRawValue input (optionAliases SaveCredential)" "''save-credential''"]
      by (intro subseq_four) simp_all
    have "length errors \<le> length fallibleMessages" using s by (rule list_emb_length)
    then have "length errors \<le> 4" by (simp add: fallibleMessages_def)
    moreover have "distinct errors"
      using s d by (auto simp: subseq_conv_nths)
    ultimately show ?thesis using s by simp
  qed
  have 2: "normalizeCliOptions rt (map_of kvs) = normalizeCliOptions rt (map_of kvs')"
    if "distinct (map fst kvs)" "distinct (map fst kvs')" "set kvs = set kvs'"
  proof -
    have "map_of kvs = map_of kvs'" using that map_of_inject_set by blast
    then show ?thesis by simp
  qed
  show ?thesis using 1 2 by blast
qed

theorem errors_fixed_order_witness:
  "normalizeCliOptions exampleRuntime (map_of allInvalid) = Inr (noOptions, fallibleMessages)
   \<and> normalizeCliOptions exampleRuntime (map_of (rev allInvalid)) = Inr (noOptions, fallibleMessages)
   \<and> subseq fallibleMessages fallibleMessages \<and> length fallibleMessages \<le> 4
   \<and> distinct fallibleMessages"
proof -
  have px: "parseInt ''x'' = NaN" "parseInt ''soon'' = NaN"
    by (simp_all add: parseInt_def isWhiteSpace_def isDigit_def)
  have u: "toLowerCase (trim ''maybe'') \<notin> truthyValues" "toLowerCase (trim ''maybe'') \<notin> falsyValues"
    by (simp_all add: toLowerCase_def trim_def toLowerChar_def isWhiteSpace_def char_of_eq_iff
        truthyValues_def falsyValues_def)
  have n: "normalizeCliOptions exampleRuntime (map_of allInvalid) = Inr (noOptions, fallibleMessages)"
    using px u
    by (simp add: allInvalid_def normalizeCliOptions_def andThen_def coerceString_def
        coerceNumber_def coerceBoolean_def noOptions_def fallibleMessages_def)
  have k1: "distinct (map fst allInvalid)"
    by (simp add: allInvalid_def)
  have k: "distinct (map fst allInvalid) \<and> distinct (map fst (rev allInvalid))
           \<and> set allInvalid = set (rev allInvalid)"
    using k1 by (simp add: rev_map [symmetric])
  have r: "normalizeCliOptions exampleRuntime (map_of allInvalid)
           = normalizeCliOptions exampleRuntime (map_of (rev allInvalid))"
    using k errors_fixed_order [where rt = exampleRuntime and kvs = allInvalid
        and kvs' = "rev allInvalid"]
    by blast
  have s: "subseq fallibleMessages fallibleMessages \<and> length fallibleMessages \<le> 4
           \<and> distinct fallibleMessages"
    using n errors_fixed_order [where rt = exampleRuntime and input = "map_of allInvalid"
        and opts = noOptions and errors = fallibleMessages]
    by blast
  show ?thesis using n r s by simp
qed

subsection \<open>The string fields\<close>









section \<open>Properties of the environment projection\<close>

subsection \<open>Auxiliary facts\<close>

lemma deref_ifThen_assign:
  "deref (ifThen c (assign a k v) w) b x
     = (if c \<and> b = a \<and> a < length (heap w) \<and> x = k then Some v else deref w b x)"
  by (auto simp: ifThen_def deref_def assign_def nth_list_update)

lemma length_ifThen_assign:
  "length (heap (ifThen c (assign a k v) w)) = length (heap w)"
  by (simp add: ifThen_def assign_def)

lemma cwd_ifThen_assign: "cwd (ifThen c (assign a k v) w) = cwd w"
  by (simp add: ifThen_def assign_def)

lemma process_env_ifThen_assign: "process_env (ifThen c (assign a k v) w) = process_env w"
  by (simp add: ifThen_def assign_def)

lemma take_ifThen_assign:
  "n \<le> a \<Longrightarrow> take n (heap (ifThen c (assign a k v) w)) = take n (heap w)"
  by (simp add: ifThen_def assign_def)

lemma deref_spread:
  "deref (w\<lparr>heap := heap w @ [e]\<rparr>) b x = (if b = length (heap w) then e x else deref w b x)"
  by (simp add: deref_def nth_append)

lemmas world_simps =
  deref_ifThen_assign length_ifThen_assign cwd_ifThen_assign process_env_ifThen_assign
  take_ifThen_assign deref_spread

lemma setEnvFromOptions_fst: "fst (setEnvFromOptions rt options w) = length (heap w)"
  by (simp add: setEnvFromOptions_def spread_def Let_def)

lemma setEnvFromOptions_frame:
  "length (heap (snd (setEnvFromOptions rt options w))) = Suc (length (heap w))"
  "take (length (heap w)) (heap (snd (setEnvFromOptions rt options w))) = heap w"
  "process_env (snd (setEnvFromOptions rt options w)) = process_env w"
  "cwd (snd (setEnvFromOptions rt options w)) = cwd w"
  by (simp_all add: setEnvFromOptions_def spread_def Let_def world_simps)

lemma setEnvFromOptions_other:
  "b \<noteq> length (heap w) \<Longrightarrow> deref (snd (setEnvFromOptions rt options w)) b = deref w b"
  by (rule ext) (simp add: setEnvFromOptions_def spread_def Let_def world_simps
      split del: if_split)

lemma setEnvFromOptions_pure:
  assumes "cwd w2 = cwd w" "deref w2 (process_env w2) = deref w (process_env w)"
  shows "deref (snd (setEnvFromOptions rt options w2)) (length (heap w2))
       = deref (snd (setEnvFromOptions rt options w)) (length (heap w))"
  by (rule ext) (simp add: setEnvFromOptions_def spread_def Let_def world_simps assms
      split del: if_split cong: if_cong)

lemma setEnvFromOptions_unlisted:
  "x \<notin> set configKeys \<Longrightarrow>
   deref (snd (setEnvFromOptions rt options w)) (length (heap w)) x = deref w (process_env w) x"
  by (simp add: setEnvFromOptions_def spread_def Let_def world_simps configKeys_def
      split del: if_split)

lemma keep_ifThen_assign:
  "deref w b x \<noteq> None \<Longrightarrow> deref (ifThen c (assign a k v) w) b x \<noteq> None"
  by (simp add: deref_ifThen_assign)

lemma setEnvFromOptions_keeps:
  "deref w (process_env w) x \<noteq> None \<Longrightarrow>
   deref (snd (setEnvFromOptions rt options w)) (length (heap w)) x \<noteq> None"
  unfolding setEnvFromOptions_def spread_def Let_def prod.case snd_conv
  by (intro keep_ifThen_assign) (simp add: deref_spread)

lemma numberToString_int:
  "\<bar>i\<bar> \<le> 2 ^ 53 \<Longrightarrow> numberToString rt (Fin (of_int i)) = showInt i"
proof -
  assume "\<bar>i\<bar> \<le> 2 ^ 53"
  then have "\<bar>rat_of_int i\<bar> \<le> 2 ^ 53"
    by (metis of_int_abs of_int_le_numeral_power_cancel_iff)
  then show ?thesis by (simp add: numberToString_def)
qed

lemmas setEnv_eval = setEnvFromOptions_def spread_def Let_def world_simps truthy_def

subsection \<open>The mapping from fields to keys\<close>

text \<open>
  Claim C1, as the code has it. \<^verbatim>\<open>setEnvFromOptions\<close> writes exactly one key for
  each field that passes the guard of its assignment, by the fixed mapping, and no other
  key. A string field (\<^verbatim>\<open>fileIni\<close>, \<^verbatim>\<open>credentialIssuerUri\<close>,
  \<^verbatim>\<open>presentationAuthorizeUri\<close>, \<^verbatim>\<open>credentialTypes\<close>, \<^verbatim>\<open>logLevel\<close>, \<^verbatim>\<open>logFile\<close>)
  passes when it is present and not the empty string; its key receives the field,
  \<^verbatim>\<open>fileIni\<close> as \<^verbatim>\<open>path.resolve\<close> gives it against the working directory.
  \<^verbatim>\<open>timeout\<close>, \<^verbatim>\<open>maxRetries\<close> and \<^verbatim>\<open>port\<close> pass whenever present; their key
  receives the string of the number, which is the decimal numeral for an integer of
  magnitude at most \<open>2^53\<close>. \<^verbatim>\<open>saveCredential\<close> passes whenever present and gives
  \<^verbatim>\<open>true\<close> or \<^verbatim>\<open>false\<close>. A string field that holds the empty string writes
  nothing: its key keeps the value of the ambient environment.
\<close>

theorem setEnvFromOptions_mapping:
  assumes "setEnvFromOptions rt options w = (a, w')"
  shows
   "(fileIni options = Some s \<and> s \<noteq> []
      \<longrightarrow> deref w' a ''CONFIG_FILE_INI'' = Some (pathResolve rt (cwd w) s))
    \<and> (credentialIssuerUri options = Some s \<and> s \<noteq> []
      \<longrightarrow> deref w' a ''CONFIG_CREDENTIAL_ISSUER_URI'' = Some s)
    \<and> (presentationAuthorizeUri options = Some s \<and> s \<noteq> []
      \<longrightarrow> deref w' a ''CONFIG_PRESENTATION_AUTHORIZE_URI'' = Some s)
    \<and> (credentialTypes options = Some s \<and> s \<noteq> []
      \<longrightarrow> deref w' a ''CONFIG_CREDENTIAL_TYPES'' = Some s)
    \<and> (logLevel options = Some s \<and> s \<noteq> [] \<longrightarrow> deref w' a ''CONFIG_LOG_LEVEL'' = Some s)
    \<and> (logFile options = Some s \<and> s \<noteq> [] \<longrightarrow> deref w' a ''CONFIG_LOG_FILE'' = Some s)
    \<and> (timeout options = Some n \<longrightarrow> deref w' a ''CONFIG_TIMEOUT'' = Some (numberToString rt n))
    \<and> (maxRetries options = Some n
      \<longrightarrow> deref w' a ''CONFIG_MAX_RETRIES'' = Some (numberToString rt n))
    \<and> (port options = Some n \<longrightarrow> deref w' a ''CONFIG_PORT'' = Some (numberToString rt n))
    \<and> (\<bar>i\<bar> \<le> 2 ^ 53 \<longrightarrow> numberToString rt (Fin (of_int i)) = showInt i)
    \<and> (saveCredential options = Some b
      \<longrightarrow> deref w' a ''CONFIG_SAVE_CREDENTIAL'' = Some (if b then ''true'' else ''false''))
    \<and> (fileIni options = Some []
      \<longrightarrow> deref w' a ''CONFIG_FILE_INI'' = deref w (process_env w) ''CONFIG_FILE_INI'')
    \<and> (credentialIssuerUri options = Some []
      \<longrightarrow> deref w' a ''CONFIG_CREDENTIAL_ISSUER_URI''
          = deref w (process_env w) ''CONFIG_CREDENTIAL_ISSUER_URI'')
    \<and> (presentationAuthorizeUri options = Some []
      \<longrightarrow> deref w' a ''CONFIG_PRESENTATION_AUTHORIZE_URI''
          = deref w (process_env w) ''CONFIG_PRESENTATION_AUTHORIZE_URI'')
    \<and> (credentialTypes options = Some []
      \<longrightarrow> deref w' a ''CONFIG_CREDENTIAL_TYPES''
          = deref w (process_env w) ''CONFIG_CREDENTIAL_TYPES'')
    \<and> (logLevel options = Some []
      \<longrightarrow> deref w' a ''CONFIG_LOG_LEVEL'' = deref w (process_env w) ''CONFIG_LOG_LEVEL'')
    \<and> (logFile options = Some []
      \<longrightarrow> deref w' a ''CONFIG_LOG_FILE'' = deref w (process_env w) ''CONFIG_LOG_FILE'')
    \<and> (writes options f \<longrightarrow> deref w' a (configKey f) \<noteq> None)
    \<and> ((\<forall>g. writes options g \<longrightarrow> k \<noteq> configKey g)
      \<longrightarrow> deref w' a k = deref w (process_env w) k)
    \<and> (configKey f = configKey g \<longrightarrow> f = g)"
proof -
  have a: "a = length (heap w)" and w': "w' = snd (setEnvFromOptions rt options w)"
    using assms setEnvFromOptions_fst [of rt options w] by simp_all
  have 1: "fileIni options = Some s \<and> s \<noteq> []
      \<longrightarrow> deref w' a ''CONFIG_FILE_INI'' = Some (pathResolve rt (cwd w) s)"
    unfolding a w' by (simp add: setEnv_eval)
  have 2: "credentialIssuerUri options = Some s \<and> s \<noteq> []
      \<longrightarrow> deref w' a ''CONFIG_CREDENTIAL_ISSUER_URI'' = Some s"
    unfolding a w' by (simp add: setEnv_eval)
  have 3: "presentationAuthorizeUri options = Some s \<and> s \<noteq> []
      \<longrightarrow> deref w' a ''CONFIG_PRESENTATION_AUTHORIZE_URI'' = Some s"
    unfolding a w' by (simp add: setEnv_eval)
  have 4: "credentialTypes options = Some s \<and> s \<noteq> []
      \<longrightarrow> deref w' a ''CONFIG_CREDENTIAL_TYPES'' = Some s"
    unfolding a w' by (simp add: setEnv_eval)
  have 5: "logLevel options = Some s \<and> s \<noteq> [] \<longrightarrow> deref w' a ''CONFIG_LOG_LEVEL'' = Some s"
    unfolding a w' by (simp add: setEnv_eval)
  have 6: "logFile options = Some s \<and> s \<noteq> [] \<longrightarrow> deref w' a ''CONFIG_LOG_FILE'' = Some s"
    unfolding a w' by (simp add: setEnv_eval)
  have 7: "timeout options = Some n \<longrightarrow> deref w' a ''CONFIG_TIMEOUT'' = Some (numberToString rt n)"
    unfolding a w' by (simp add: setEnv_eval)
  have 8: "maxRetries options = Some n
      \<longrightarrow> deref w' a ''CONFIG_MAX_RETRIES'' = Some (numberToString rt n)"
    unfolding a w' by (simp add: setEnv_eval)
  have 9: "port options = Some n \<longrightarrow> deref w' a ''CONFIG_PORT'' = Some (numberToString rt n)"
    unfolding a w' by (simp add: setEnv_eval)
  have 10: "\<bar>i\<bar> \<le> 2 ^ 53 \<longrightarrow> numberToString rt (Fin (of_int i)) = showInt i"
    using numberToString_int by blast
  have 11: "saveCredential options = Some b
      \<longrightarrow> deref w' a ''CONFIG_SAVE_CREDENTIAL'' = Some (if b then ''true'' else ''false'')"
    unfolding a w' by (simp add: setEnv_eval boolToString_def)
  have 12: "fileIni options = Some []
      \<longrightarrow> deref w' a ''CONFIG_FILE_INI'' = deref w (process_env w) ''CONFIG_FILE_INI''"
    unfolding a w' by (simp add: setEnv_eval)
  have 13: "credentialIssuerUri options = Some []
      \<longrightarrow> deref w' a ''CONFIG_CREDENTIAL_ISSUER_URI''
          = deref w (process_env w) ''CONFIG_CREDENTIAL_ISSUER_URI''"
    unfolding a w' by (simp add: setEnv_eval)
  have 14: "presentationAuthorizeUri options = Some []
      \<longrightarrow> deref w' a ''CONFIG_PRESENTATION_AUTHORIZE_URI''
          = deref w (process_env w) ''CONFIG_PRESENTATION_AUTHORIZE_URI''"
    unfolding a w' by (simp add: setEnv_eval)
  have 15: "credentialTypes options = Some []
      \<longrightarrow> deref w' a ''CONFIG_CREDENTIAL_TYPES''
          = deref w (process_env w) ''CONFIG_CREDENTIAL_TYPES''"
    unfolding a w' by (simp add: setEnv_eval)
  have 16: "logLevel options = Some []
      \<longrightarrow> deref w' a ''CONFIG_LOG_LEVEL'' = deref w (process_env w) ''CONFIG_LOG_LEVEL''"
    unfolding a w' by (simp add: setEnv_eval)
  have 17: "logFile options = Some []
      \<longrightarrow> deref w' a ''CONFIG_LOG_FILE'' = deref w (process_env w) ''CONFIG_LOG_FILE''"
    unfolding a w' by (simp add: setEnv_eval)
  have 18: "writes options f \<longrightarrow> deref w' a (configKey f) \<noteq> None"
    unfolding a w' by (cases f) (simp_all add: setEnv_eval)
  have 19: "(\<forall>g. writes options g \<longrightarrow> k \<noteq> configKey g)
      \<longrightarrow> deref w' a k = deref w (process_env w) k"
  proof
    assume h: "\<forall>g. writes options g \<longrightarrow> k \<noteq> configKey g"
    have n: "truthy (fileIni options) \<Longrightarrow> k \<noteq> ''CONFIG_FILE_INI''"
        "truthy (credentialIssuerUri options) \<Longrightarrow> k \<noteq> ''CONFIG_CREDENTIAL_ISSUER_URI''"
        "truthy (presentationAuthorizeUri options) \<Longrightarrow> k \<noteq> ''CONFIG_PRESENTATION_AUTHORIZE_URI''"
        "truthy (credentialTypes options) \<Longrightarrow> k \<noteq> ''CONFIG_CREDENTIAL_TYPES''"
        "timeout options \<noteq> None \<Longrightarrow> k \<noteq> ''CONFIG_TIMEOUT''"
        "maxRetries options \<noteq> None \<Longrightarrow> k \<noteq> ''CONFIG_MAX_RETRIES''"
        "truthy (logLevel options) \<Longrightarrow> k \<noteq> ''CONFIG_LOG_LEVEL''"
        "truthy (logFile options) \<Longrightarrow> k \<noteq> ''CONFIG_LOG_FILE''"
        "port options \<noteq> None \<Longrightarrow> k \<noteq> ''CONFIG_PORT''"
        "saveCredential options \<noteq> None \<Longrightarrow> k \<noteq> ''CONFIG_SAVE_CREDENTIAL''"
      using h [rule_format, of FileIni] h [rule_format, of CredentialIssuerUri]
        h [rule_format, of PresentationAuthorizeUri] h [rule_format, of CredentialTypes]
        h [rule_format, of Timeout] h [rule_format, of MaxRetries] h [rule_format, of LogLevel]
        h [rule_format, of LogFile] h [rule_format, of Port] h [rule_format, of SaveCredential]
      by simp_all
    show "deref w' a k = deref w (process_env w) k"
      unfolding a w'
      by (simp add: setEnvFromOptions_def spread_def Let_def world_simps n
          split del: if_split cong: conj_cong)
  qed
  have 20: "configKey f = configKey g \<longrightarrow> f = g"
    by (cases f; cases g) simp_all
  show ?thesis
    using 1 2 3 4 5 6 7 8 9 10 11 12 13 14 15 16 17 18 19 20 by (intro conjI)
qed


text \<open>
  Claim C1 as stated fails: the request body \<^verbatim>\<open>{"logLevel": ""}\<close> is coerced to a
  record whose field \<^verbatim>\<open>logLevel\<close> is present, and the projection writes no
  \<^verbatim>\<open>CONFIG_LOG_LEVEL\<close>.
\<close>

theorem setEnvFromOptions_empty_string_counterexample:
  "normalizeCliOptions exampleRuntime [''logLevel'' \<mapsto> JStr ''''] = Inr (emptyLogLevel, [])
   \<and> logLevel emptyLogLevel = Some ''''
   \<and> deref (snd (setEnvFromOptions exampleRuntime emptyLogLevel exampleWorld))
        (fst (setEnvFromOptions exampleRuntime emptyLogLevel exampleWorld)) ''CONFIG_LOG_LEVEL''
      = None"
proof -
  have "normalizeCliOptions exampleRuntime [''logLevel'' \<mapsto> JStr ''''] = Inr (emptyLogLevel, [])"
    by (simp add: normalizeCliOptions_def andThen_def coerceString_def coerceNumber_def
        coerceBoolean_def emptyLogLevel_def)
  moreover have "logLevel emptyLogLevel = Some ''''" by (simp add: emptyLogLevel_def)
  moreover have "deref (snd (setEnvFromOptions exampleRuntime emptyLogLevel exampleWorld))
        (fst (setEnvFromOptions exampleRuntime emptyLogLevel exampleWorld)) ''CONFIG_LOG_LEVEL''
      = None"
    unfolding setEnvFromOptions_fst
    by (simp add: setEnv_eval emptyLogLevel_def) (simp add: exampleWorld_def deref_def)
  ultimately show ?thesis by simp
qed

theorem setEnvFromOptions_mapping_witness:
  "deref (snd (setEnvFromOptions exampleRuntime someOptions exampleWorld)) 1 ''CONFIG_FILE_INI''
     = Some ''/work/conf.ini''
   \<and> deref (snd (setEnvFromOptions exampleRuntime someOptions exampleWorld)) 1
        ''CONFIG_CREDENTIAL_ISSUER_URI'' = Some ''https://issuer.example''
   \<and> deref (snd (setEnvFromOptions exampleRuntime someOptions exampleWorld)) 1 ''CONFIG_TIMEOUT''
     = Some ''30''
   \<and> deref (snd (setEnvFromOptions exampleRuntime someOptions exampleWorld)) 1 ''CONFIG_MAX_RETRIES''
     = Some ''0''
   \<and> deref (snd (setEnvFromOptions exampleRuntime someOptions exampleWorld)) 1
        ''CONFIG_SAVE_CREDENTIAL'' = Some ''false''
   \<and> deref (snd (setEnvFromOptions exampleRuntime someOptions exampleWorld)) 1
        ''CONFIG_CREDENTIAL_TYPES'' = None
   \<and> deref (snd (setEnvFromOptions exampleRuntime someOptions exampleWorld)) 1 ''CONFIG_PORT''
     = Some ''9000''
   \<and> deref (snd (setEnvFromOptions exampleRuntime someOptions exampleWorld)) 1 ''CONFIG_LOG_LEVEL''
     \<noteq> None"
proof -
  let ?w = "snd (setEnvFromOptions exampleRuntime someOptions exampleWorld)"
  have r: "setEnvFromOptions exampleRuntime someOptions exampleWorld = (1, ?w)"
    using setEnvFromOptions_fst [of exampleRuntime someOptions exampleWorld]
    by (simp add: exampleWorld_def prod_eq_iff)
  have s30: "showInt 30 = ''30''" "showInt 0 = ''0''"
    by (simp_all add: showInt_def showNat.simps digitChar_def)
  have amb: "deref exampleWorld (process_env exampleWorld) ''CONFIG_CREDENTIAL_TYPES'' = None"
    by (simp add: exampleWorld_def deref_def)
  have cw: "pathResolve exampleRuntime (cwd exampleWorld) ''conf.ini'' = ''/work/conf.ini''"
    by (simp add: exampleRuntime_def exampleWorld_def)
  have f: "fileIni someOptions = Some ''conf.ini''"
      "credentialIssuerUri someOptions = Some ''https://issuer.example''"
      "timeout someOptions = Some (Fin (of_int 30))" "maxRetries someOptions = Some (Fin (of_int 0))"
      "saveCredential someOptions = Some False" "credentialTypes someOptions = Some []"
    by (simp_all add: someOptions_def)
  have 1: "deref ?w 1 ''CONFIG_FILE_INI'' = Some ''/work/conf.ini''"
    using setEnvFromOptions_mapping [OF r, where s = "''conf.ini''"] f cw by simp
  have 2: "deref ?w 1 ''CONFIG_CREDENTIAL_ISSUER_URI'' = Some ''https://issuer.example''"
    using setEnvFromOptions_mapping [OF r, where s = "''https://issuer.example''"] f by simp
  have 3: "deref ?w 1 ''CONFIG_TIMEOUT'' = Some ''30''"
    using setEnvFromOptions_mapping [OF r, where n = "Fin (of_int 30)" and i = 30] f s30 by simp
  have 4: "deref ?w 1 ''CONFIG_MAX_RETRIES'' = Some ''0''"
    using setEnvFromOptions_mapping [OF r, where n = "Fin (of_int 0)" and i = 0] f s30 by simp
  have 5: "deref ?w 1 ''CONFIG_SAVE_CREDENTIAL'' = Some ''false''"
    using setEnvFromOptions_mapping [OF r, where b = False] f by simp
  have 6: "deref ?w 1 ''CONFIG_CREDENTIAL_TYPES'' = None"
    using setEnvFromOptions_mapping [OF r] f amb by simp
  have ambp: "deref exampleWorld (process_env exampleWorld) ''CONFIG_PORT'' = Some ''9000''"
    by (simp add: exampleWorld_def deref_def)
  have nw: "\<forall>g. writes someOptions g \<longrightarrow> ''CONFIG_PORT'' \<noteq> configKey g"
  proof (intro allI impI)
    fix g assume "writes someOptions g"
    then show "''CONFIG_PORT'' \<noteq> configKey g"
      by (cases g) (simp_all add: someOptions_def)
  qed
  have 7: "deref ?w 1 ''CONFIG_PORT'' = Some ''9000''"
  proof -
    have "(\<forall>g. writes someOptions g \<longrightarrow> ''CONFIG_PORT'' \<noteq> configKey g)
          \<longrightarrow> deref ?w 1 ''CONFIG_PORT''
              = deref exampleWorld (process_env exampleWorld) ''CONFIG_PORT''"
      using setEnvFromOptions_mapping [OF r, where k = "''CONFIG_PORT''" and s = "[]" and n = NaN
          and i = 0 and b = True and f = Port and g = Port]
      by - (elim conjE, assumption)
    then show ?thesis using nw ambp by simp
  qed
  have wl: "writes someOptions LogLevel" by (simp add: someOptions_def truthy_def)
  have 8: "deref ?w 1 ''CONFIG_LOG_LEVEL'' \<noteq> None"
  proof -
    have "writes someOptions LogLevel \<longrightarrow> deref ?w 1 (configKey LogLevel) \<noteq> None"
      using setEnvFromOptions_mapping [OF r, where k = "[]" and s = "[]" and n = NaN
          and i = 0 and b = True and f = LogLevel and g = LogLevel]
      by - (elim conjE, assumption)
    then show ?thesis using wl by simp
  qed
  show ?thesis using 1 2 3 4 5 6 7 8 by simp
qed

subsection \<open>What the projection leaves alone\<close>

text \<open>
  Claim C7. The projection returns a new object: its address is fresh, every object that
  was in the store (the live \<^verbatim>\<open>process.env\<close> among them) is unchanged. A key outside
  the ten keys of the mapping has its ambient value in the overlay; no ambient key is
  deleted, and no key outside the ambient ones and the ten appears. A field that is absent
  leaves its key as the ambient environment has it. The overlay depends only on the
  record, the working directory and the content of the ambient environment: two stores
  that agree on these give the same overlay.
\<close>

theorem setEnvFromOptions_frame_effect:
  assumes "process_env w < length (heap w)" and "setEnvFromOptions rt options w = (a, w')"
  shows
   "a = length (heap w) \<and> a \<noteq> process_env w
    \<and> length (heap w') = Suc (length (heap w))
    \<and> take (length (heap w)) (heap w') = heap w
    \<and> process_env w' = process_env w \<and> cwd w' = cwd w
    \<and> deref w' (process_env w') = deref w (process_env w)
    \<and> (k \<notin> set configKeys \<longrightarrow> deref w' a k = deref w (process_env w) k)
    \<and> dom (deref w (process_env w)) \<subseteq> dom (deref w' a)
    \<and> dom (deref w' a) \<subseteq> dom (deref w (process_env w)) \<union> set configKeys
    \<and> (fileIni options = None
      \<longrightarrow> deref w' a ''CONFIG_FILE_INI'' = deref w (process_env w) ''CONFIG_FILE_INI'')
    \<and> (credentialIssuerUri options = None
      \<longrightarrow> deref w' a ''CONFIG_CREDENTIAL_ISSUER_URI''
          = deref w (process_env w) ''CONFIG_CREDENTIAL_ISSUER_URI'')
    \<and> (presentationAuthorizeUri options = None
      \<longrightarrow> deref w' a ''CONFIG_PRESENTATION_AUTHORIZE_URI''
          = deref w (process_env w) ''CONFIG_PRESENTATION_AUTHORIZE_URI'')
    \<and> (credentialTypes options = None
      \<longrightarrow> deref w' a ''CONFIG_CREDENTIAL_TYPES''
          = deref w (process_env w) ''CONFIG_CREDENTIAL_TYPES'')
    \<and> (timeout options = None
      \<longrightarrow> deref w' a ''CONFIG_TIMEOUT'' = deref w (process_env w) ''CONFIG_TIMEOUT'')
    \<and> (maxRetries options = None
      \<longrightarrow> deref w' a ''CONFIG_MAX_RETRIES'' = deref w (process_env w) ''CONFIG_MAX_RETRIES'')
    \<and> (logLevel options = None
      \<longrightarrow> deref w' a ''CONFIG_LOG_LEVEL'' = deref w (process_env w) ''CONFIG_LOG_LEVEL'')
    \<and> (logFile options = None
      \<longrightarrow> deref w' a ''CONFIG_LOG_FILE'' = deref w (process_env w) ''CONFIG_LOG_FILE'')
    \<and> (port options = None
      \<longrightarrow> deref w' a ''CONFIG_PORT'' = deref w (process_env w) ''CONFIG_PORT'')
    \<and> (saveCredential options = None
      \<longrightarrow> deref w' a ''CONFIG_SAVE_CREDENTIAL''
          = deref w (process_env w) ''CONFIG_SAVE_CREDENTIAL'')
    \<and> (cwd w2 = cwd w \<and> deref w2 (process_env w2) = deref w (process_env w)
        \<and> setEnvFromOptions rt options w2 = (a2, w2')
      \<longrightarrow> deref w2' a2 = deref w' a)"
proof -
  have a: "a = length (heap w)" and w': "w' = snd (setEnvFromOptions rt options w)"
    using assms(2) setEnvFromOptions_fst [of rt options w] by simp_all
  have fresh: "a \<noteq> process_env w" using a assms(1) by simp
  have fr: "length (heap w') = Suc (length (heap w))" "take (length (heap w)) (heap w') = heap w"
      "process_env w' = process_env w" "cwd w' = cwd w"
    unfolding w' by (rule setEnvFromOptions_frame)+
  have "deref w' (process_env w) = deref w (process_env w)"
    unfolding w' using fresh a by (intro setEnvFromOptions_other) simp
  then have live: "deref w' (process_env w') = deref w (process_env w)"
    using fr(3) by simp
  have unl: "k \<notin> set configKeys \<longrightarrow> deref w' a k = deref w (process_env w) k"
    unfolding a w' using setEnvFromOptions_unlisted by blast
  have keep: "dom (deref w (process_env w)) \<subseteq> dom (deref w' a)"
    unfolding a w' using setEnvFromOptions_keeps [of w _ rt options] by (auto simp: dom_def)
  have new: "dom (deref w' a) \<subseteq> dom (deref w (process_env w)) \<union> set configKeys"
  proof
    fix x assume x: "x \<in> dom (deref w' a)"
    show "x \<in> dom (deref w (process_env w)) \<union> set configKeys"
    proof (cases "x \<in> set configKeys")
      case True
      then show ?thesis by simp
    next
      case False
      then have "deref w' a x = deref w (process_env w) x"
        unfolding a w' by (rule setEnvFromOptions_unlisted)
      then show ?thesis using x by (auto simp: dom_def)
    qed
  qed
  have 1: "fileIni options = None
      \<longrightarrow> deref w' a ''CONFIG_FILE_INI'' = deref w (process_env w) ''CONFIG_FILE_INI''"
    unfolding a w' by (simp add: setEnv_eval)
  have 2: "credentialIssuerUri options = None
      \<longrightarrow> deref w' a ''CONFIG_CREDENTIAL_ISSUER_URI''
          = deref w (process_env w) ''CONFIG_CREDENTIAL_ISSUER_URI''"
    unfolding a w' by (simp add: setEnv_eval)
  have 3: "presentationAuthorizeUri options = None
      \<longrightarrow> deref w' a ''CONFIG_PRESENTATION_AUTHORIZE_URI''
          = deref w (process_env w) ''CONFIG_PRESENTATION_AUTHORIZE_URI''"
    unfolding a w' by (simp add: setEnv_eval)
  have 4: "credentialTypes options = None
      \<longrightarrow> deref w' a ''CONFIG_CREDENTIAL_TYPES''
          = deref w (process_env w) ''CONFIG_CREDENTIAL_TYPES''"
    unfolding a w' by (simp add: setEnv_eval)
  have 5: "timeout options = None
      \<longrightarrow> deref w' a ''CONFIG_TIMEOUT'' = deref w (process_env w) ''CONFIG_TIMEOUT''"
    unfolding a w' by (simp add: setEnv_eval)
  have 6: "maxRetries options = None
      \<longrightarrow> deref w' a ''CONFIG_MAX_RETRIES'' = deref w (process_env w) ''CONFIG_MAX_RETRIES''"
    unfolding a w' by (simp add: setEnv_eval)
  have 7: "logLevel options = None
      \<longrightarrow> deref w' a ''CONFIG_LOG_LEVEL'' = deref w (process_env w) ''CONFIG_LOG_LEVEL''"
    unfolding a w' by (simp add: setEnv_eval)
  have 8: "logFile options = None
      \<longrightarrow> deref w' a ''CONFIG_LOG_FILE'' = deref w (process_env w) ''CONFIG_LOG_FILE''"
    unfolding a w' by (simp add: setEnv_eval)
  have 9: "port options = None
      \<longrightarrow> deref w' a ''CONFIG_PORT'' = deref w (process_env w) ''CONFIG_PORT''"
    unfolding a w' by (simp add: setEnv_eval)
  have 10: "saveCredential options = None
      \<longrightarrow> deref w' a ''CONFIG_SAVE_CREDENTIAL''
          = deref w (process_env w) ''CONFIG_SAVE_CREDENTIAL''"
    unfolding a w' by (simp add: setEnv_eval)
  have pure: "cwd w2 = cwd w \<and> deref w2 (process_env w2) = deref w (process_env w)
        \<and> setEnvFromOptions rt options w2 = (a2, w2')
      \<longrightarrow> deref w2' a2 = deref w' a"
  proof (intro impI, elim conjE)
    assume h: "cwd w2 = cwd w" "deref w2 (process_env w2) = deref w (process_env w)"
      "setEnvFromOptions rt options w2 = (a2, w2')"
    have "a2 = length (heap w2)" "w2' = snd (setEnvFromOptions rt options w2)"
      using h(3) setEnvFromOptions_fst [of rt options w2] by simp_all
    then show "deref w2' a2 = deref w' a"
      unfolding a w' using setEnvFromOptions_pure [OF h(1,2)] by simp
  qed
  show ?thesis
    using a fresh fr live unl keep new 1 2 3 4 5 6 7 8 9 10 pure by (intro conjI)
qed

theorem setEnvFromOptions_frame_effect_witness:
  "fst (setEnvFromOptions exampleRuntime someOptions exampleWorld) = 1
   \<and> heap (snd (setEnvFromOptions exampleRuntime someOptions exampleWorld)) ! 0
       = heap exampleWorld ! 0
   \<and> deref (snd (setEnvFromOptions exampleRuntime someOptions exampleWorld)) 0 ''CONFIG_TIMEOUT''
       = None
   \<and> deref (snd (setEnvFromOptions exampleRuntime someOptions exampleWorld)) 1 ''PATH''
       = Some ''/usr/bin''
   \<and> deref (snd (setEnvFromOptions exampleRuntime someOptions exampleWorld)) 1 ''CONFIG_PORT''
       = Some ''9000''
   \<and> deref (snd (setEnvFromOptions exampleRuntime someOptions exampleWorld)) 1 ''CONFIG_LOG_FILE''
       = None
   \<and> deref (snd (setEnvFromOptions exampleRuntime someOptions
               (exampleWorld\<lparr>heap := heap exampleWorld @ heap exampleWorld\<rparr>))) 2
       = deref (snd (setEnvFromOptions exampleRuntime someOptions exampleWorld)) 1"
proof -
  let ?w = "snd (setEnvFromOptions exampleRuntime someOptions exampleWorld)"
  let ?v = "exampleWorld\<lparr>heap := heap exampleWorld @ heap exampleWorld\<rparr>"
  let ?v' = "snd (setEnvFromOptions exampleRuntime someOptions ?v)"
  have valid: "process_env exampleWorld < length (heap exampleWorld)"
    by (simp add: exampleWorld_def)
  have r: "setEnvFromOptions exampleRuntime someOptions exampleWorld = (1, ?w)"
    using setEnvFromOptions_fst [of exampleRuntime someOptions exampleWorld]
    by (simp add: exampleWorld_def prod_eq_iff)
  have r2: "setEnvFromOptions exampleRuntime someOptions ?v = (2, ?v')"
    using setEnvFromOptions_fst [of exampleRuntime someOptions ?v]
    by (simp add: exampleWorld_def prod_eq_iff)
  have same: "cwd ?v = cwd exampleWorld
      \<and> deref ?v (process_env ?v) = deref exampleWorld (process_env exampleWorld)"
    by (simp add: exampleWorld_def deref_def)
  have amb: "deref exampleWorld (process_env exampleWorld) ''PATH'' = Some ''/usr/bin''"
      "deref exampleWorld (process_env exampleWorld) ''CONFIG_PORT'' = Some ''9000''"
      "deref exampleWorld (process_env exampleWorld) ''CONFIG_LOG_FILE'' = None"
      "deref exampleWorld (process_env exampleWorld) ''CONFIG_TIMEOUT'' = None"
      "process_env exampleWorld = 0"
    by (simp_all add: exampleWorld_def deref_def)
  have f: "port someOptions = None" "logFile someOptions = None"
    by (simp_all add: someOptions_def)
  have nk: "''PATH'' \<notin> set configKeys" by (simp add: configKeys_def)
  note t = setEnvFromOptions_frame_effect [OF valid r, where k = "''PATH''" and ?w2.0 = ?v
      and ?a2.0 = 2 and w2' = ?v']
  have 1: "fst (setEnvFromOptions exampleRuntime someOptions exampleWorld) = 1"
    using r by (metis fst_conv)
  have 2: "heap ?w ! 0 = heap exampleWorld ! 0"
  proof -
    have "take (length (heap exampleWorld)) (heap ?w) ! 0 = heap exampleWorld ! 0"
      using t by simp
    then show ?thesis using valid amb(5) by simp
  qed
  have 3: "deref ?w 0 ''CONFIG_TIMEOUT'' = None"
  proof -
    have "process_env ?w = process_env exampleWorld"
        "deref ?w (process_env ?w) = deref exampleWorld (process_env exampleWorld)"
      using t by blast+
    then have "deref ?w 0 = deref exampleWorld 0" using amb(5) by simp
    then show ?thesis using amb(4,5) by simp
  qed
  have 4: "deref ?w 1 ''PATH'' = Some ''/usr/bin''"
  proof -
    have "deref ?w 1 ''PATH'' = deref exampleWorld (process_env exampleWorld) ''PATH''"
      using t nk by blast
    then show ?thesis using amb(1) by simp
  qed
  have 5: "deref ?w 1 ''CONFIG_PORT'' = Some ''9000''"
  proof -
    have "deref ?w 1 ''CONFIG_PORT'' = deref exampleWorld (process_env exampleWorld) ''CONFIG_PORT''"
      using t f(1) by blast
    then show ?thesis using amb(2) by simp
  qed
  have 6: "deref ?w 1 ''CONFIG_LOG_FILE'' = None"
  proof -
    have "deref ?w 1 ''CONFIG_LOG_FILE''
          = deref exampleWorld (process_env exampleWorld) ''CONFIG_LOG_FILE''"
      using t f(2) by blast
    then show ?thesis using amb(3) by simp
  qed
  have 7: "deref ?v' 2 = deref ?w 1"
    using t same r2 by blast
  show ?thesis using 1 2 3 4 5 6 7 by simp
qed

section \<open>Properties of the HTTP handler\<close>

lemma test_routes:
  assumes "(m, path, ep) \<in> set createCliServer"
    and "path = ''/test/issuance'' \<or> path = ''/test/presentation''"
  shows "ep = TestHandler ''test:issuance'' \<or> ep = TestHandler ''test:presentation''"
  using assms by (auto simp: createCliServer_def)

lemma createTestHandler_errors:
  assumes "normalizeCliOptions rt (normalizeRequestParams req) = Inr (opts, errors)" "errors \<noteq> []"
  shows "createTestHandler rt spawn script req w
           = \<lparr> result = Response 400 (ErrorsBody errors), spawned = [], after = w \<rparr>"
  using assms by (simp add: createTestHandler_def)


text \<open>
  Claim C3. On the routes \<^verbatim>\<open>/test/issuance\<close> and \<^verbatim>\<open>/test/presentation\<close>, a request
  whose query merged with its body is coerced with a non-empty list of validation errors
  is answered with status 400 and the body \<^verbatim>\<open>{ errors }\<close>; \<^verbatim>\<open>spawn\<close> is not called and
  the store is untouched. The body \<^verbatim>\<open>{"timeout":"notanumber"}\<close> gives the errors
  \<^verbatim>\<open>["Invalid numeric value for timeout."]\<close>.
\<close>

theorem validation_errors_give_400:
  "((m, path, ep) \<in> set createCliServer
      \<and> (path = ''/test/issuance'' \<or> path = ''/test/presentation'')
      \<and> normalizeCliOptions rt (normalizeRequestParams req) = Inr (opts, errors) \<and> errors \<noteq> []
     \<longrightarrow> serve rt spawn ep req w
           = \<lparr> result = Response 400 (ErrorsBody errors), spawned = [], after = w \<rparr>)
   \<and> (POST, ''/test/issuance'', TestHandler ''test:issuance'') \<in> set createCliServer
   \<and> serve rt spawn (TestHandler ''test:issuance'') badTimeoutRequest w
       = \<lparr> result = Response 400 (ErrorsBody [''Invalid numeric value for timeout.'']),
           spawned = [], after = w \<rparr>"
proof -
  have 1: "serve rt spawn ep req w
           = \<lparr> result = Response 400 (ErrorsBody errors), spawned = [], after = w \<rparr>"
    if h: "(m, path, ep) \<in> set createCliServer"
      "path = ''/test/issuance'' \<or> path = ''/test/presentation''"
      "normalizeCliOptions rt (normalizeRequestParams req) = Inr (opts, errors)" "errors \<noteq> []"
  proof -
    obtain script where "ep = TestHandler script"
      using test_routes [OF h(1,2)] by blast
    then show ?thesis
      using createTestHandler_errors [OF h(3,4)] by (simp add: serve_def)
  qed
  have 2: "(POST, ''/test/issuance'', TestHandler ''test:issuance'') \<in> set createCliServer"
    by (simp add: createCliServer_def)
  have p: "parseInt ''notanumber'' = NaN"
    by (simp add: parseInt_def isWhiteSpace_def isDigit_def)
  have n: "normalizeCliOptions rt (normalizeRequestParams badTimeoutRequest)
             = Inr (noOptions, [''Invalid numeric value for timeout.''])"
    using p
    by (simp add: normalizeRequestParams_def badTimeoutRequest_def normalizeCliOptions_def
        andThen_def coerceString_def coerceNumber_def coerceBoolean_def noOptions_def)
  have 3: "serve rt spawn (TestHandler ''test:issuance'') badTimeoutRequest w
       = \<lparr> result = Response 400 (ErrorsBody [''Invalid numeric value for timeout.'']),
           spawned = [], after = w \<rparr>"
    using createTestHandler_errors [OF n] by (simp add: serve_def)
  show ?thesis using 1 2 3 by blast
qed

theorem validation_errors_give_400_witness:
  "serve exampleRuntime (scriptedSpawn [CloseEvent (Some 0)]) (TestHandler ''test:presentation'')
      \<lparr> query = [''port'' \<mapsto> JStr ''80''], body = Some [''save-credential'' \<mapsto> JStr ''maybe''] \<rparr>
      exampleWorld
     = \<lparr> result = Response 400 (ErrorsBody [''Invalid boolean value for save-credential.'']),
         spawned = [], after = exampleWorld \<rparr>"
proof -
  let ?req = "\<lparr> query = [''port'' \<mapsto> JStr ''80''],
                 body = Some [''save-credential'' \<mapsto> JStr ''maybe''] \<rparr>"
  let ?o = "noOptions\<lparr>port := Some (Fin 80)\<rparr>"
  have p: "parseInt ''80'' = Fin 80"
    by (simp add: parseInt_def isWhiteSpace_def isDigit_def digitsVal_def digitVal_def
        toBinary64_exact)
  have u: "toLowerCase (trim ''maybe'') \<notin> truthyValues" "toLowerCase (trim ''maybe'') \<notin> falsyValues"
    by (simp_all add: toLowerCase_def trim_def toLowerChar_def isWhiteSpace_def char_of_eq_iff
        truthyValues_def falsyValues_def)
  have n: "normalizeCliOptions exampleRuntime (normalizeRequestParams ?req)
             = Inr (?o, [''Invalid boolean value for save-credential.''])"
    using p u
    by (simp add: normalizeRequestParams_def normalizeCliOptions_def
        andThen_def coerceString_def coerceNumber_def coerceBoolean_def noOptions_def)
  have r: "(GET, ''/test/presentation'', TestHandler ''test:presentation'') \<in> set createCliServer"
    by (simp add: createCliServer_def)
  show ?thesis
    using r n validation_errors_give_400 [where m = GET and path = "''/test/presentation''"
        and ep = "TestHandler ''test:presentation''" and rt = exampleRuntime and req = ?req
        and opts = ?o and errors = "[''Invalid boolean value for save-credential.'']"
        and spawn = "scriptedSpawn [CloseEvent (Some 0)]" and w = exampleWorld]
    by simp
qed

lemma runEvents_close:
  "\<forall>ev\<in>set ds. isData ev \<Longrightarrow>
   runEvents (ds @ CloseEvent code # rest) out err
     = Fulfilled \<lparr> exitCode = code, stdout = out @ stdoutChunks ds, stderr = err @ stderrChunks ds \<rparr>"
proof (induction ds arbitrary: out err)
  case Nil
  then show ?case by simp
next
  case (Cons d ds)
  then show ?case by (cases d) simp_all
qed

lemma runEvents_error:
  "\<forall>ev\<in>set ds. isData ev \<Longrightarrow> runEvents (ds @ ErrorEvent e # rest) out err = Rejected e"
proof (induction ds arbitrary: out err)
  case Nil
  then show ?case by simp
next
  case (Cons d ds)
  then show ?case by (cases d) simp_all
qed

lemma runEvents_pending:
  "\<forall>ev\<in>set ds. isData ev \<Longrightarrow> runEvents ds out err = Pending"
proof (induction ds arbitrary: out err)
  case Nil
  then show ?case by simp
next
  case (Cons d ds)
  then show ?case by (cases d) simp_all
qed

lemma createTestHandler_run:
  assumes "normalizeCliOptions rt (normalizeRequestParams req) = Inr (opts, [])"
    and "setEnvFromOptions rt opts w = (a, w')"
  shows "createTestHandler rt spawn script req w =
     (case runCommand spawn ''pnpm'' [script] (deref w' a) of
        Pending \<Rightarrow> \<lparr> result = NoResponse, spawned = [(''pnpm'', [script], deref w' a)], after = w' \<rparr>
      | Fulfilled r \<Rightarrow>
          \<lparr> result = Response (if exitCode r = Some 0 then 200 else 500)
                       (ResultBody script (exitCode r) (stdout r) (stderr r)),
            spawned = [(''pnpm'', [script], deref w' a)], after = w' \<rparr>
      | Rejected e \<Rightarrow>
          \<lparr> result = Response 500 (FailureBody ''command_execution_failed''
                       (case e of ErrorObj m \<Rightarrow> m | OtherValue \<Rightarrow> ''Unknown error'')),
            spawned = [(''pnpm'', [script], deref w' a)], after = w' \<rparr>)"
  using assms by (simp add: createTestHandler_def Let_def split: promise.splits)


text \<open>
  Claim C4. When the coercion reports no error and the run of the command completes
  with a result, the handler answers with the body
  \<^verbatim>\<open>{command, exitCode, stdout, stderr}\<close>, with status 200 if the exit code is 0 and
  500 for every other exit code, \<^verbatim>\<open>null\<close> included. When the run is rejected the
  answer is 500 with \<^verbatim>\<open>{error: "command_execution_failed", message}\<close>. A child that
  closes after its chunks of output gives a result with that exit code and the chunks of
  each pipe concatenated in order; an \<^verbatim>\<open>error\<close> event before any \<^verbatim>\<open>close\<close>, or a
  \<^verbatim>\<open>spawn\<close> that throws, rejects the run.
\<close>

theorem exit_code_decides_status:
  "(normalizeCliOptions rt (normalizeRequestParams req) = Inr (opts, [])
      \<and> setEnvFromOptions rt opts w = (a, w')
      \<and> runCommand spawn ''pnpm'' [script] (deref w' a) = Fulfilled r
     \<longrightarrow> result (createTestHandler rt spawn script req w)
           = Response (if exitCode r = Some 0 then 200 else 500)
               (ResultBody script (exitCode r) (stdout r) (stderr r)))
   \<and> (normalizeCliOptions rt (normalizeRequestParams req) = Inr (opts, [])
      \<and> setEnvFromOptions rt opts w = (a, w')
      \<and> runCommand spawn ''pnpm'' [script] (deref w' a) = Rejected e
     \<longrightarrow> result (createTestHandler rt spawn script req w)
           = Response 500 (FailureBody ''command_execution_failed''
               (case e of ErrorObj m \<Rightarrow> m | OtherValue \<Rightarrow> ''Unknown error'')))
   \<and> (spawn command args env = Inr (ds @ CloseEvent code # rest) \<and> (\<forall>ev\<in>set ds. isData ev)
     \<longrightarrow> runCommand spawn command args env
           = Fulfilled \<lparr> exitCode = code, stdout = stdoutChunks ds, stderr = stderrChunks ds \<rparr>)
   \<and> (spawn command args env = Inr (ds @ ErrorEvent e # rest) \<and> (\<forall>ev\<in>set ds. isData ev)
     \<longrightarrow> runCommand spawn command args env = Rejected e)
   \<and> (spawn command args env = Inl e \<longrightarrow> runCommand spawn command args env = Rejected e)"
proof -
  have 1: "result (createTestHandler rt spawn script req w)
           = Response (if exitCode r = Some 0 then 200 else 500)
               (ResultBody script (exitCode r) (stdout r) (stderr r))"
    if "normalizeCliOptions rt (normalizeRequestParams req) = Inr (opts, [])"
      "setEnvFromOptions rt opts w = (a, w')"
      "runCommand spawn ''pnpm'' [script] (deref w' a) = Fulfilled r"
    using createTestHandler_run [OF that(1,2)] that(3) by simp
  have 2: "result (createTestHandler rt spawn script req w)
           = Response 500 (FailureBody ''command_execution_failed''
               (case e of ErrorObj m \<Rightarrow> m | OtherValue \<Rightarrow> ''Unknown error''))"
    if "normalizeCliOptions rt (normalizeRequestParams req) = Inr (opts, [])"
      "setEnvFromOptions rt opts w = (a, w')"
      "runCommand spawn ''pnpm'' [script] (deref w' a) = Rejected e"
    using createTestHandler_run [OF that(1,2)] that(3) by simp
  have 3: "runCommand spawn command args env
           = Fulfilled \<lparr> exitCode = code, stdout = stdoutChunks ds, stderr = stderrChunks ds \<rparr>"
    if "spawn command args env = Inr (ds @ CloseEvent code # rest)" "\<forall>ev\<in>set ds. isData ev"
    using that(1) runEvents_close [OF that(2), of code rest "[]" "[]"]
    by (simp add: runCommand_def)
  have 4: "runCommand spawn command args env = Rejected e"
    if "spawn command args env = Inr (ds @ ErrorEvent e # rest)" "\<forall>ev\<in>set ds. isData ev"
    using that(1) runEvents_error [OF that(2), of e rest "[]" "[]"]
    by (simp add: runCommand_def)
  have 5: "runCommand spawn command args env = Rejected e" if "spawn command args env = Inl e"
    using that by (simp add: runCommand_def)
  show ?thesis using 1 2 3 4 5 by blast
qed

theorem exit_code_decides_status_witness:
  "result (createTestHandler exampleRuntime
             (scriptedSpawn [StdoutData ''ok'', StderrData ''warn'', StdoutData ''!'', CloseEvent (Some 0)])
             ''test:issuance'' goodRequest exampleWorld)
     = Response 200 (ResultBody ''test:issuance'' (Some 0) ''ok!'' ''warn'')
   \<and> result (createTestHandler exampleRuntime
             (scriptedSpawn [StderrData ''failed'', CloseEvent (Some 1)])
             ''test:issuance'' goodRequest exampleWorld)
     = Response 500 (ResultBody ''test:issuance'' (Some 1) [] ''failed'')
   \<and> result (createTestHandler exampleRuntime (scriptedSpawn [CloseEvent None])
             ''test:issuance'' goodRequest exampleWorld)
     = Response 500 (ResultBody ''test:issuance'' None [] [])
   \<and> result (createTestHandler exampleRuntime
             (scriptedSpawn [ErrorEvent (ErrorObj ''spawn pnpm ENOENT''), CloseEvent (Some (- 2))])
             ''test:issuance'' goodRequest exampleWorld)
     = Response 500 (FailureBody ''command_execution_failed'' ''spawn pnpm ENOENT'')
   \<and> result (createTestHandler exampleRuntime (throwingSpawn OtherValue)
             ''test:issuance'' goodRequest exampleWorld)
     = Response 500 (FailureBody ''command_execution_failed'' ''Unknown error'')"
proof -
  let ?w = "snd (setEnvFromOptions exampleRuntime timeoutOnly exampleWorld)"
  let ?a = "fst (setEnvFromOptions exampleRuntime timeoutOnly exampleWorld)"
  have n: "normalizeCliOptions exampleRuntime (normalizeRequestParams goodRequest)
             = Inr (timeoutOnly, [])"
    by (simp add: normalizeRequestParams_def goodRequest_def normalizeCliOptions_def
        andThen_def coerceString_def coerceNumber_def coerceBoolean_def timeoutOnly_def)
  have s: "setEnvFromOptions exampleRuntime timeoutOnly exampleWorld = (?a, ?w)"
    by simp
  have d: "\<forall>ev\<in>set [StdoutData ''ok'', StderrData ''warn'', StdoutData ''!'']. isData ev"
       "\<forall>ev\<in>set [StderrData ''failed'']. isData ev" "\<forall>ev\<in>set []. isData ev"
    by simp_all
  have r1: "runCommand
             (scriptedSpawn [StdoutData ''ok'', StderrData ''warn'', StdoutData ''!'', CloseEvent (Some 0)])
             ''pnpm'' [''test:issuance''] (deref ?w ?a)
            = Fulfilled \<lparr> exitCode = Some 0, stdout = ''ok!'', stderr = ''warn'' \<rparr>"
    using d(1) exit_code_decides_status [where
        spawn = "scriptedSpawn [StdoutData ''ok'', StderrData ''warn'', StdoutData ''!'', CloseEvent (Some 0)]"
        and command = "''pnpm''" and args = "[''test:issuance'']" and env = "deref ?w ?a"
        and ds = "[StdoutData ''ok'', StderrData ''warn'', StdoutData ''!'']" and code = "Some 0"
        and rest = "[]"]
    by (simp add: scriptedSpawn_def)
  have r2: "runCommand (scriptedSpawn [StderrData ''failed'', CloseEvent (Some 1)])
             ''pnpm'' [''test:issuance''] (deref ?w ?a)
            = Fulfilled \<lparr> exitCode = Some 1, stdout = [], stderr = ''failed'' \<rparr>"
    using d(2) exit_code_decides_status [where
        spawn = "scriptedSpawn [StderrData ''failed'', CloseEvent (Some 1)]"
        and command = "''pnpm''" and args = "[''test:issuance'']" and env = "deref ?w ?a"
        and ds = "[StderrData ''failed'']" and code = "Some 1" and rest = "[]"]
    by (simp add: scriptedSpawn_def)
  have r3: "runCommand (scriptedSpawn [CloseEvent None]) ''pnpm'' [''test:issuance''] (deref ?w ?a)
            = Fulfilled \<lparr> exitCode = None, stdout = [], stderr = [] \<rparr>"
    using d(3) exit_code_decides_status [where spawn = "scriptedSpawn [CloseEvent None]"
        and command = "''pnpm''" and args = "[''test:issuance'']" and env = "deref ?w ?a"
        and ds = "[]" and code = None and rest = "[]"]
    by (simp add: scriptedSpawn_def)
  have r4: "runCommand
             (scriptedSpawn [ErrorEvent (ErrorObj ''spawn pnpm ENOENT''), CloseEvent (Some (- 2))])
             ''pnpm'' [''test:issuance''] (deref ?w ?a)
            = Rejected (ErrorObj ''spawn pnpm ENOENT'')"
    using d(3) exit_code_decides_status [where
        spawn = "scriptedSpawn [ErrorEvent (ErrorObj ''spawn pnpm ENOENT''), CloseEvent (Some (- 2))]"
        and command = "''pnpm''" and args = "[''test:issuance'']" and env = "deref ?w ?a"
        and ds = "[]" and e = "ErrorObj ''spawn pnpm ENOENT''" and rest = "[CloseEvent (Some (- 2))]"]
    by (simp add: scriptedSpawn_def)
  have r5: "runCommand (throwingSpawn OtherValue) ''pnpm'' [''test:issuance''] (deref ?w ?a)
            = Rejected OtherValue"
    using exit_code_decides_status [where spawn = "throwingSpawn OtherValue"
        and command = "''pnpm''" and args = "[''test:issuance'']" and env = "deref ?w ?a"
        and e = OtherValue]
    by (simp add: throwingSpawn_def)
  note t = exit_code_decides_status [where rt = exampleRuntime and req = goodRequest
      and opts = timeoutOnly and w = exampleWorld and a = ?a and w' = ?w
      and script = "''test:issuance''"]
  have 1: "result (createTestHandler exampleRuntime
             (scriptedSpawn [StdoutData ''ok'', StderrData ''warn'', StdoutData ''!'', CloseEvent (Some 0)])
             ''test:issuance'' goodRequest exampleWorld)
     = Response 200 (ResultBody ''test:issuance'' (Some 0) ''ok!'' ''warn'')"
    using n s r1 t [where
        spawn = "scriptedSpawn [StdoutData ''ok'', StderrData ''warn'', StdoutData ''!'', CloseEvent (Some 0)]"
        and r = "\<lparr> exitCode = Some 0, stdout = ''ok!'', stderr = ''warn'' \<rparr>"]
    by simp
  have 2: "result (createTestHandler exampleRuntime
             (scriptedSpawn [StderrData ''failed'', CloseEvent (Some 1)])
             ''test:issuance'' goodRequest exampleWorld)
     = Response 500 (ResultBody ''test:issuance'' (Some 1) [] ''failed'')"
    using n s r2 t [where spawn = "scriptedSpawn [StderrData ''failed'', CloseEvent (Some 1)]"
        and r = "\<lparr> exitCode = Some 1, stdout = [], stderr = ''failed'' \<rparr>"]
    by simp
  have 3: "result (createTestHandler exampleRuntime (scriptedSpawn [CloseEvent None])
             ''test:issuance'' goodRequest exampleWorld)
     = Response 500 (ResultBody ''test:issuance'' None [] [])"
    using n s r3 t [where spawn = "scriptedSpawn [CloseEvent None]"
        and r = "\<lparr> exitCode = None, stdout = [], stderr = [] \<rparr>"]
    by simp
  have 4: "result (createTestHandler exampleRuntime
             (scriptedSpawn [ErrorEvent (ErrorObj ''spawn pnpm ENOENT''), CloseEvent (Some (- 2))])
             ''test:issuance'' goodRequest exampleWorld)
     = Response 500 (FailureBody ''command_execution_failed'' ''spawn pnpm ENOENT'')"
    using n s r4 t [where
        spawn = "scriptedSpawn [ErrorEvent (ErrorObj ''spawn pnpm ENOENT''), CloseEvent (Some (- 2))]"
        and e = "ErrorObj ''spawn pnpm ENOENT''"]
    by simp
  have 5: "result (createTestHandler exampleRuntime (throwingSpawn OtherValue)
             ''test:issuance'' goodRequest exampleWorld)
     = Response 500 (FailureBody ''command_execution_failed'' ''Unknown error'')"
    using n s r5 t [where spawn = "throwingSpawn OtherValue" and e = OtherValue]
    by simp
  show ?thesis using 1 2 3 4 5 by simp
qed

end
